theory Spec2Isabelle
  imports Complex_Main
begin

section \<open>Dates and numbers\<close>

text \<open>
  CivicConnect is a JavaScript (Express and Mongoose) application. A JavaScript
  \<^verbatim>\<open>Number\<close> is modelled as a \<^typ>\<open>real\<close>. Rounding of IEEE doubles is outside the
  model, except in the distance computation of the seeding script, where it decides
  whether a distance is NaN and is an explicit argument. A \<^verbatim>\<open>Date\<close> is its time
  value, the integral number of milliseconds since the epoch. The server's local time
  is taken to be UTC (a zone with a constant offset gives the same results, the offset
  cancels; daylight-saving shifts are outside the model).
\<close>

type_synonym time = int

definition msPerSecond :: int where "msPerSecond = 1000"
definition msPerMinute :: int where "msPerMinute = 60000"
definition msPerHour :: int where "msPerHour = 3600000"
definition msPerDay :: int where "msPerDay = 86400000"

text \<open>The field accessors of ECMA-262 (Day, HourFromTime, ...), with floored division.\<close>

definition Day :: "time \<Rightarrow> int" where
  "Day t = t div msPerDay"

definition HourFromTime :: "time \<Rightarrow> int" where
  "HourFromTime t = (t div msPerHour) mod 24"

definition MinFromTime :: "time \<Rightarrow> int" where
  "MinFromTime t = (t div msPerMinute) mod 60"

definition SecFromTime :: "time \<Rightarrow> int" where
  "SecFromTime t = (t div msPerSecond) mod 60"

definition msFromTime :: "time \<Rightarrow> int" where
  "msFromTime t = t mod msPerSecond"

text \<open>\<^verbatim>\<open>ToIntegerOrInfinity\<close> on a finite number: truncation towards zero.\<close>

definition ToIntegerOrInfinity :: "real \<Rightarrow> int" where
  "ToIntegerOrInfinity x = (if x < 0 then - \<lfloor>- x\<rfloor> else \<lfloor>x\<rfloor>)"

text \<open>
  \<^verbatim>\<open>MakeTime(hour, min, sec, ms)\<close> converts each argument with \<^verbatim>\<open>ToIntegerOrInfinity\<close>;
  the minute, second and millisecond fields passed by \<^verbatim>\<open>setHours\<close> are integers already.
\<close>

definition MakeTime :: "real \<Rightarrow> int \<Rightarrow> int \<Rightarrow> int \<Rightarrow> int" where
  "MakeTime hour m s milli =
     ToIntegerOrInfinity hour * msPerHour + m * msPerMinute + s * msPerSecond + milli"

definition MakeDate :: "int \<Rightarrow> int \<Rightarrow> time" where
  "MakeDate day tm = day * msPerDay + tm"

definition getHours :: "time \<Rightarrow> int" where
  "getHours t = HourFromTime t"

text \<open>
  \<^verbatim>\<open>Date.prototype.setHours(hour)\<close> with one argument keeps the day, the minutes, the
  seconds and the milliseconds of the date and replaces its hour field.
\<close>

definition setHours :: "time \<Rightarrow> real \<Rightarrow> time" where
  "setHours t hour =
     MakeDate (Day t) (MakeTime hour (MinFromTime t) (SecFromTime t) (msFromTime t))"

section \<open>Deadline policy and overdue check (server.js)\<close>

text \<open>
  The object literal \<^verbatim>\<open>baseHours\<close> and the lookup
  \<^verbatim>\<open>baseHours[priority] || baseHours['medium']\<close>. Only the literal's own keys are modelled
  (the schema admits the priorities low, medium and high only); names inherited from
  \<^verbatim>\<open>Object.prototype\<close> are not.
\<close>

definition baseHours :: "(string \<times> real) list" where
  "baseHours = [(''high'', 24), (''medium'', 72), (''low'', 168)]"

definition baseTimeOf :: "string \<Rightarrow> real" where
  "baseTimeOf priority =
     (case map_of baseHours priority of
        Some h \<Rightarrow> h
      | None \<Rightarrow> (case map_of baseHours ''medium'' of Some m \<Rightarrow> m | None \<Rightarrow> 0))"

text \<open>The value of the local \<^verbatim>\<open>finalHours\<close> of \<^verbatim>\<open>calculateTargetResolutionTime\<close>.\<close>

definition finalHoursOf :: "int \<Rightarrow> string \<Rightarrow> real" where
  "finalHoursOf upvotes priority =
     (let upvoteReduction = min (real_of_int upvotes * 2) 50;
          reductionPercentage = upvoteReduction / 100;
          baseTime = baseTimeOf priority;
          adjustedHours = baseTime * (1 - reductionPercentage)
      in max adjustedHours 4)"

definition calculateTargetResolutionTime :: "int \<Rightarrow> string \<Rightarrow> time \<Rightarrow> time" where
  "calculateTargetResolutionTime upvotes priority createdAt =
     (let finalHours = finalHoursOf upvotes priority;
          targetTime = createdAt
      in setHours targetTime (real_of_int (getHours targetTime) + finalHours))"

text \<open>
  \<^verbatim>\<open>checkIfOverdue\<close> reads the clock (\<^verbatim>\<open>new Date()\<close>); the model takes the reading as
  the argument \<open>now\<close>. The field \<^verbatim>\<open>targetResolutionTime\<close> of a document is optional:
  \<^verbatim>\<open>new Date() > undefined\<close> is false.
\<close>

definition checkIfOverdue :: "time \<Rightarrow> time option \<Rightarrow> string \<Rightarrow> bool" where
  "checkIfOverdue now targetResolutionTime status =
     (if status = ''resolved'' \<or> status = ''rejected'' then False
      else (case targetResolutionTime of None \<Rightarrow> False | Some target \<Rightarrow> now > target))"

text \<open>
  The deadline as the specification words it: the creation time plus
  \<open>max (base \<times> (1 - min (2u, 50) / 100), 4)\<close> hours, fractions of an hour included.
  It is compared with the code's deadline below.
\<close>

definition spec_computeDeadline :: "string \<Rightarrow> int \<Rightarrow> time \<Rightarrow> real" where
  "spec_computeDeadline p u t =
     real_of_int t
       + max (baseTimeOf p * (1 - min (2 * real_of_int u) 50 / 100)) 4 * real_of_int msPerHour"

section \<open>Documents, collections and requests\<close>

text \<open>
  An \<^verbatim>\<open>ObjectId\<close> and the \<^verbatim>\<open>userId\<close> of a token are compared as strings. Of the issue
  schema the model keeps the fields the routes below read or write and the fields the
  duplicate check needs (\<open>iid\<close> is \<^verbatim>\<open>_id\<close>; \<open>latitude\<close> and \<open>longitude\<close> are
  \<^verbatim>\<open>location.coordinates\<close>); a comment is (user, message, timestamp).
\<close>

type_synonym objectId = string

record issue =
  iid :: objectId
  category :: string
  priority :: string
  status :: string
  latitude :: real
  longitude :: real
  reporter :: objectId
  comments :: "(objectId \<times> string \<times> time) list"
  upvotes :: int
  upvotedBy :: "objectId list"
  targetResolutionTime :: "time option"
  isOverdue :: bool
  estimatedResolution :: "time option"
  resolvedAt :: "time option"
  createdAt :: time
  updatedAt :: time

text \<open>
  A user document, with the fields of the schema of the seeding script (\<open>uid\<close> is
  \<^verbatim>\<open>_id\<close>, \<open>userLatitude\<close> and \<open>userLongitude\<close> are \<^verbatim>\<open>location.coordinates\<close>, each a
  number or absent).
\<close>

record user =
  uid :: objectId
  name :: string
  email :: string
  phone :: string
  password :: string
  role :: string
  isActive :: bool
  department :: "string option"
  userLatitude :: "real option"
  userLongitude :: "real option"

text \<open>The payload of a verified token, \<^verbatim>\<open>req.user\<close>.\<close>

record actor =
  userId :: objectId
  actorRole :: string

text \<open>The error responses of the routes, each with its HTTP status.\<close>

datatype error =
    AdminAccessRequired
  | IssueNotFound
  | AlreadyUpvoted
  | NotUpvoted
  | UserAlreadyExists
  | InternalError

fun httpStatus :: "error \<Rightarrow> nat" where
  "httpStatus AdminAccessRequired = 403"
| "httpStatus IssueNotFound = 404"
| "httpStatus AlreadyUpvoted = 400"
| "httpStatus NotUpvoted = 400"
| "httpStatus UserAlreadyExists = 400"
| "httpStatus InternalError = 500"

text \<open>
  The issue collection is the list of its documents. \<^verbatim>\<open>Issue.findById\<close> returns the
  document with the given id; \<^verbatim>\<open>issue.save()\<close> replaces the stored document of the
  same id.
\<close>

definition findById :: "issue list \<Rightarrow> objectId \<Rightarrow> issue option" where
  "findById db i = find (\<lambda>x. iid x = i) db"

definition save :: "issue \<Rightarrow> issue list \<Rightarrow> issue list" where
  "save x db = map (\<lambda>y. if iid y = iid x then x else y) db"

section \<open>Upvote routes (server.js)\<close>

text \<open>
  The body of \<^verbatim>\<open>POST /api/issues/:id/upvote\<close> once the issue is found, up to the
  \<^verbatim>\<open>save\<close>: the updated document, or the error response.
\<close>

definition applyUpvote :: "objectId \<Rightarrow> time \<Rightarrow> issue \<Rightarrow> error + issue" where
  "applyUpvote uId now issue =
     (if uId \<in> set (upvotedBy issue) then Inl AlreadyUpvoted
      else
        let issue1 = issue\<lparr>upvotedBy := upvotedBy issue @ [uId]\<rparr>;
            issue2 = issue1\<lparr>upvotes := upvotes issue1 + 1\<rparr>;
            issue3 = issue2\<lparr>targetResolutionTime :=
              Some (calculateTargetResolutionTime (upvotes issue2) (priority issue2) (createdAt issue2))\<rparr>;
            issue4 = issue3\<lparr>isOverdue :=
              checkIfOverdue now (targetResolutionTime issue3) (status issue3)\<rparr>
        in Inr issue4)"

definition post_upvote ::
  "actor \<Rightarrow> objectId \<Rightarrow> time \<Rightarrow> issue list \<Rightarrow> (error + int) \<times> issue list" where
  "post_upvote req_user i now db =
     (case findById db i of
        None \<Rightarrow> (Inl IssueNotFound, db)
      | Some issue \<Rightarrow>
          (case applyUpvote (userId req_user) now issue of
             Inl e \<Rightarrow> (Inl e, db)
           | Inr issue' \<Rightarrow> (Inr (upvotes issue'), save issue' db)))"

text \<open>The body of \<^verbatim>\<open>DELETE /api/issues/:id/upvote\<close>, in the same way.\<close>

definition applyUnupvote :: "objectId \<Rightarrow> time \<Rightarrow> issue \<Rightarrow> error + issue" where
  "applyUnupvote uId now issue =
     (if uId \<notin> set (upvotedBy issue) then Inl NotUpvoted
      else
        let issue1 = issue\<lparr>upvotedBy := filter (\<lambda>x. x \<noteq> uId) (upvotedBy issue)\<rparr>;
            issue2 = issue1\<lparr>upvotes := max 0 (upvotes issue1 - 1)\<rparr>;
            issue3 = issue2\<lparr>targetResolutionTime :=
              Some (calculateTargetResolutionTime (upvotes issue2) (priority issue2) (createdAt issue2))\<rparr>;
            issue4 = issue3\<lparr>isOverdue :=
              checkIfOverdue now (targetResolutionTime issue3) (status issue3)\<rparr>
        in Inr issue4)"

definition delete_upvote ::
  "actor \<Rightarrow> objectId \<Rightarrow> time \<Rightarrow> issue list \<Rightarrow> (error + int) \<times> issue list" where
  "delete_upvote req_user i now db =
     (case findById db i of
        None \<Rightarrow> (Inl IssueNotFound, db)
      | Some issue \<Rightarrow>
          (case applyUnupvote (userId req_user) now issue of
             Inl e \<Rightarrow> (Inl e, db)
           | Inr issue' \<Rightarrow> (Inr (upvotes issue'), save issue' db)))"

text \<open>
  A sequence of upvote and un-upvote requests against one issue, each with the id of its
  actor and its clock reading. A rejected request leaves the issue as it is. The result
  is the final issue with the numbers of accepted upvotes and of accepted un-upvotes.
\<close>

datatype call = Upvote objectId time | Unupvote objectId time

fun runCalls :: "call list \<Rightarrow> issue \<Rightarrow> issue \<times> nat \<times> nat" where
  "runCalls [] issue = (issue, 0, 0)"
| "runCalls (Upvote u now # cs) issue =
     (case applyUpvote u now issue of
        Inl e \<Rightarrow> runCalls cs issue
      | Inr issue' \<Rightarrow> (case runCalls cs issue' of (d, nu, nd) \<Rightarrow> (d, Suc nu, nd)))"
| "runCalls (Unupvote u now # cs) issue =
     (case applyUnupvote u now issue of
        Inl e \<Rightarrow> runCalls cs issue
      | Inr issue' \<Rightarrow> (case runCalls cs issue' of (d, nu, nd) \<Rightarrow> (d, nu, Suc nd)))"

section \<open>Status route (server.js)\<close>

text \<open>
  The body of \<^verbatim>\<open>PUT /api/issues/:id/status\<close>: the new status (a string), an optional
  text comment (absent and empty are falsy in the source) and an optional estimated
  resolution: \<open>None\<close> when it is absent or falsy, \<open>Some None\<close> when
  \<^verbatim>\<open>new Date(estimatedResolution)\<close> is an invalid date, \<open>Some (Some t)\<close> when it is the
  date \<open>t\<close>. A request without a status, or with a status or comment that is no
  string, is outside the model.
\<close>

record statusBody =
  bodyStatus :: string
  bodyComment :: "string option"
  bodyEstimatedResolution :: "time option option"

text \<open>The enumerations of the issue schema of server.js.\<close>

definition categoryEnum :: "string list" where
  "categoryEnum =
     [''pothole'', ''streetlight'', ''trash'', ''graffiti'', ''traffic'', ''drainage'', ''other'']"

definition priorityEnum :: "string list" where
  "priorityEnum = [''low'', ''medium'', ''high'']"

definition statusEnum :: "string list" where
  "statusEnum = [''pending'', ''in-progress'', ''resolved'', ''rejected'']"

text \<open>
  The validation \<^verbatim>\<open>issue.save()\<close> runs on a loaded document, on the fields of the
  model: category, priority and status are of their enumerations and every comment has
  a message. (The required fields that the model leaves out, such as the title, are
  taken to be present.)
\<close>

definition validIssue :: "issue \<Rightarrow> bool" where
  "validIssue x =
     (category x \<in> set categoryEnum \<and> priority x \<in> set priorityEnum \<and>
      status x \<in> set statusEnum \<and> list_all (\<lambda>c. fst (snd c) \<noteq> []) (comments x))"

text \<open>
  The route runs \<^verbatim>\<open>requireAdmin\<close>, then \<^verbatim>\<open>findByIdAndUpdate\<close> with \<^verbatim>\<open>updateData\<close>
  (status, \<^verbatim>\<open>updatedAt\<close>, \<^verbatim>\<open>resolvedAt\<close> when the status is resolved, the estimate when
  given), then pushes the comment and saves when a comment is given.

  \<open>idParam\<close> is the route parameter \<^verbatim>\<open>:id\<close> as the driver casts it to an \<^verbatim>\<open>ObjectId\<close>:
  \<open>None\<close> when the cast fails. A failed cast of the id or of the estimate makes
  \<^verbatim>\<open>findByIdAndUpdate\<close> throw before anything is written, and the \<^verbatim>\<open>catch\<close> block answers
  500. \<^verbatim>\<open>findByIdAndUpdate\<close> runs no validators, so it stores any status string; the
  \<^verbatim>\<open>save\<close> after a comment validates the loaded document, and when that fails the route
  answers 500 with the update already stored and the comment not stored. (The
  \<^verbatim>\<open>userId\<close> of a verified token is the id of a user, so the pushed comment itself is
  valid.)
\<close>

definition put_status ::
  "actor \<Rightarrow> objectId option \<Rightarrow> statusBody \<Rightarrow> time \<Rightarrow> issue list
     \<Rightarrow> (error + issue) \<times> issue list" where
  "put_status req_user idParam body now db =
     (if actorRole req_user \<noteq> ''admin'' then (Inl AdminAccessRequired, db)
      else
        (case idParam of
           None \<Rightarrow> (Inl InternalError, db)
         | Some i \<Rightarrow>
             if bodyEstimatedResolution body = Some None then (Inl InternalError, db)
             else
               (case findById db i of
                  None \<Rightarrow> (Inl IssueNotFound, db)
                | Some doc \<Rightarrow>
                    let doc1 = doc\<lparr>status := bodyStatus body, updatedAt := now\<rparr>;
                        doc2 = (if bodyStatus body = ''resolved''
                                then doc1\<lparr>resolvedAt := Some now\<rparr> else doc1);
                        issue = (case bodyEstimatedResolution body of
                                   Some (Some e) \<Rightarrow> doc2\<lparr>estimatedResolution := Some e\<rparr>
                                 | _ \<Rightarrow> doc2);
                        db1 = save issue db
                    in (case bodyComment body of
                          None \<Rightarrow> (Inr issue, db1)
                        | Some c \<Rightarrow>
                            if c = [] then (Inr issue, db1)
                            else
                              let issue' = issue\<lparr>comments :=
                                    comments issue @ [(userId req_user, c, now)]\<rparr>
                              in if validIssue issue' then (Inr issue', save issue' db1)
                                 else (Inl InternalError, db1)))))"

text \<open>The document \<^verbatim>\<open>findByIdAndUpdate\<close> stores and returns.\<close>

definition updatedIssue :: "statusBody \<Rightarrow> time \<Rightarrow> issue \<Rightarrow> issue" where
  "updatedIssue body now doc =
     (let doc1 = doc\<lparr>status := bodyStatus body, updatedAt := now\<rparr>;
          doc2 = (if bodyStatus body = ''resolved'' then doc1\<lparr>resolvedAt := Some now\<rparr> else doc1)
      in (case bodyEstimatedResolution body of
            Some (Some e) \<Rightarrow> doc2\<lparr>estimatedResolution := Some e\<rparr>
          | _ \<Rightarrow> doc2))"

text \<open>
  The transition table as the specification words it: an administrator or an authority
  may move a pending issue to in-progress, resolved or rejected and an in-progress issue
  to resolved or rejected; nothing else is permitted in a status-change request.
\<close>

definition spec_transition_permitted :: "string \<Rightarrow> string \<Rightarrow> string \<Rightarrow> bool" where
  "spec_transition_permitted actor_role current target =
     ((actor_role = ''admin'' \<or> actor_role = ''authority'') \<and>
      ((current = ''pending'' \<and>
          (target = ''in-progress'' \<or> target = ''resolved'' \<or> target = ''rejected'')) \<or>
       (current = ''in-progress'' \<and> (target = ''resolved'' \<or> target = ''rejected''))))"

section \<open>Batch refresh of the overdue flags (server.js)\<close>

text \<open>
  The query of \<^verbatim>\<open>POST /api/issues/update-overdue\<close>: status neither resolved nor
  rejected, \<^verbatim>\<open>targetResolutionTime\<close> present.
\<close>

definition overdueQuery :: "issue \<Rightarrow> bool" where
  "overdueQuery x =
     (status x \<noteq> ''resolved'' \<and> status x \<noteq> ''rejected'' \<and> targetResolutionTime x \<noteq> None)"

text \<open>
  The loop over the documents the query returned. Each is compared with its own stored
  flag and saved when the flag changes; the state is the collection and
  \<^verbatim>\<open>updatedCount\<close>, the number of saves. Every clock reading of one request is \<open>now\<close>.
\<close>

fun updateOverdueLoop :: "time \<Rightarrow> issue list \<Rightarrow> issue list \<times> nat \<Rightarrow> issue list \<times> nat" where
  "updateOverdueLoop now [] (db, updatedCount) = (db, updatedCount)"
| "updateOverdueLoop now (issue # rest) (db, updatedCount) =
     (let isOverdue' = checkIfOverdue now (targetResolutionTime issue) (status issue)
      in if isOverdue issue \<noteq> isOverdue'
         then updateOverdueLoop now rest (save (issue\<lparr>isOverdue := isOverdue'\<rparr>) db, updatedCount + 1)
         else updateOverdueLoop now rest (db, updatedCount))"

text \<open>The stored overdue flag of a document is the one \<^verbatim>\<open>checkIfOverdue\<close> gives at \<open>now\<close>.\<close>

definition flagCurrent :: "time \<Rightarrow> issue \<Rightarrow> bool" where
  "flagCurrent now x = (isOverdue x = checkIfOverdue now (targetResolutionTime x) (status x))"

definition post_update_overdue ::
  "actor \<Rightarrow> time \<Rightarrow> issue list \<Rightarrow> (error + nat) \<times> issue list" where
  "post_update_overdue req_user now db =
     (if actorRole req_user \<noteq> ''admin'' then (Inl AdminAccessRequired, db)
      else
        (case updateOverdueLoop now (filter overdueQuery db) (db, 0) of
           (db', updatedCount) \<Rightarrow> (Inr updatedCount, db')))"

section \<open>Registration (server.js)\<close>

text \<open>
  The body of \<^verbatim>\<open>POST /api/auth/register\<close>; \<^verbatim>\<open>role\<close> defaults to citizen when absent.
\<close>

record registerBody =
  regName :: string
  regEmail :: string
  regPhone :: string
  regPassword :: string
  regRole :: "string option"

text \<open>
  The validation \<^verbatim>\<open>user.save()\<close> runs on the schema of server.js: the required strings
  are not empty and the role is one of the enumeration. A failure is the 500 response of
  the \<^verbatim>\<open>catch\<close> block.
\<close>

definition validUser :: "user \<Rightarrow> bool" where
  "validUser u =
     (name u \<noteq> [] \<and> email u \<noteq> [] \<and> phone u \<noteq> [] \<and> password u \<noteq> [] \<and>
      (role u = ''citizen'' \<or> role u = ''admin''))"

text \<open>
  The route; \<open>hash\<close> stands for \<^verbatim>\<open>bcrypt.hash\<close> and \<open>newId\<close> for the id Mongoose gives
  the new document. The token of the response is not modelled.
\<close>

definition post_register ::
  "(string \<Rightarrow> string) \<Rightarrow> objectId \<Rightarrow> registerBody \<Rightarrow> user list \<Rightarrow> (error + user) \<times> user list" where
  "post_register hash newId body users =
     (let role0 = (case regRole body of None \<Rightarrow> ''citizen'' | Some r \<Rightarrow> r)
      in case find (\<lambda>u. email u = regEmail body) users of
           Some existingUser \<Rightarrow> (Inl UserAlreadyExists, users)
         | None \<Rightarrow>
             let hashedPassword = hash (regPassword body);
                 user0 = \<lparr>uid = newId, name = regName body, email = regEmail body,
                          phone = regPhone body, password = hashedPassword, role = role0,
                          isActive = True, department = None,
                          userLatitude = None, userLongitude = None\<rparr>;
                 user1 = (if regName body = ''wolf moni'' then user0\<lparr>role := ''admin''\<rparr>
                          else user0\<lparr>role := ''citizen''\<rparr>)
             in if validUser user1 then (Inr user1, users @ [user1])
                else (Inl InternalError, users))"

section \<open>Distance and nearest authority (seeding script)\<close>

text \<open>
  A number of the distance computation: \<^verbatim>\<open>NaN\<close>, \<^verbatim>\<open>Infinity\<close> (the first value of
  \<^verbatim>\<open>best\<close>) or a real, and the comparison \<^verbatim>\<open><\<close>, which is false whenever a side is
  \<^verbatim>\<open>NaN\<close>.
\<close>

datatype number = NaN | Infinity | Num real

fun jsLess :: "number \<Rightarrow> number \<Rightarrow> bool" where
  "jsLess (Num x) (Num y) = (x < y)"
| "jsLess (Num x) Infinity = True"
| "jsLess _ _ = False"

text \<open>\<^verbatim>\<open>toRad\<close>, and \<^verbatim>\<open>Math.atan2(y, x)\<close> written out by the sign of its arguments.\<close>

definition toRad :: "real \<Rightarrow> real" where
  "toRad v = (v * pi) / 180"

definition atan2 :: "real \<Rightarrow> real \<Rightarrow> real" where
  "atan2 y x =
     (if x > 0 then arctan (y / x)
      else if x < 0 then (if y \<ge> 0 then arctan (y / x) + pi else arctan (y / x) - pi)
      else if y > 0 then pi / 2
      else if y < 0 then - (pi / 2)
      else 0)"

text \<open>The exact value of the local \<^verbatim>\<open>a\<close> of \<^verbatim>\<open>haversineDistance\<close>.\<close>

definition haversineA :: "real \<Rightarrow> real \<Rightarrow> real \<Rightarrow> real \<Rightarrow> real" where
  "haversineA lat1 lon1 lat2 lon2 =
     (let dLat = toRad (lat2 - lat1);
          dLon = toRad (lon2 - lon1)
      in (sin (dLat / 2))\<^sup>2 + cos (toRad lat1) * cos (toRad lat2) * (sin (dLon / 2))\<^sup>2)"

text \<open>
  The source computes \<^verbatim>\<open>a\<close> in IEEE doubles. The model takes the rounding as an
  argument: \<open>err lat1 lon1 lat2 lon2\<close> is the computed \<^verbatim>\<open>a\<close> minus its exact value
  (the constant 0 is exact arithmetic). Between two antipodal points the exact value is
  1 and the computed one can be the next double above 1.
\<close>

type_synonym rounding = "real \<Rightarrow> real \<Rightarrow> real \<Rightarrow> real \<Rightarrow> real"

text \<open>
  \<^verbatim>\<open>haversineDistance\<close>, in kilometres. \<^verbatim>\<open>Math.sqrt\<close> of a negative number is
  \<^verbatim>\<open>NaN\<close>, which \<^verbatim>\<open>Math.atan2\<close> and the products hand on: the result is \<^verbatim>\<open>NaN\<close> when
  the computed \<^verbatim>\<open>a\<close> is below 0 or above 1. The steps after \<^verbatim>\<open>a\<close> are taken exactly.
\<close>

definition haversineDistance :: "rounding \<Rightarrow> real \<Rightarrow> real \<Rightarrow> real \<Rightarrow> real \<Rightarrow> number" where
  "haversineDistance err lat1 lon1 lat2 lon2 =
     (let R = 6371;
          a = haversineA lat1 lon1 lat2 lon2 + err lat1 lon1 lat2 lon2
      in if a < 0 \<or> 1 - a < 0 then NaN
         else Num (R * (2 * atan2 (sqrt a) (sqrt (1 - a)))))"

text \<open>
  The query of \<^verbatim>\<open>findNearestAuthority\<close>: active accounts of role authority, and of the
  given department when the argument is truthy (\<^verbatim>\<open>if (department) filter.department =
  department\<close>; an absent department is \<open>None\<close>, and the empty string is falsy too).
\<close>

definition findAuthorities :: "string option \<Rightarrow> user list \<Rightarrow> user list" where
  "findAuthorities dep users =
     (let filter_department = (case dep of None \<Rightarrow> None | Some d \<Rightarrow> if d \<noteq> [] then Some d else None)
      in filter (\<lambda>u. role u = ''authority'' \<and> isActive u \<and>
                      (case filter_department of None \<Rightarrow> True | Some d \<Rightarrow> department u = Some d))
           users)"

text \<open>
  The coordinates of an account when both are numbers; the loop skips the account
  otherwise.
\<close>

definition coordsOf :: "user \<Rightarrow> (real \<times> real) option" where
  "coordsOf auth =
     (case userLatitude auth of
        None \<Rightarrow> None
      | Some la \<Rightarrow> (case userLongitude auth of None \<Rightarrow> None | Some lo \<Rightarrow> Some (la, lo)))"

text \<open>
  The loop over the accounts found; its state is (\<^verbatim>\<open>nearest\<close>, \<^verbatim>\<open>best\<close>), at first
  (\<^verbatim>\<open>null\<close>, \<^verbatim>\<open>Infinity\<close>).
\<close>

fun nearestLoop ::
  "rounding \<Rightarrow> real \<Rightarrow> real \<Rightarrow> user list \<Rightarrow> user option \<times> number \<Rightarrow> user option \<times> number" where
  "nearestLoop err lat lon [] (nearest, best) = (nearest, best)"
| "nearestLoop err lat lon (auth # rest) (nearest, best) =
     (case coordsOf auth of
        None \<Rightarrow> nearestLoop err lat lon rest (nearest, best)
      | Some (la, lo) \<Rightarrow>
          let d = haversineDistance err lat lon la lo
          in if jsLess d best then nearestLoop err lat lon rest (Some auth, d)
             else nearestLoop err lat lon rest (nearest, best))"

definition findNearestAuthority ::
  "rounding \<Rightarrow> string option \<Rightarrow> real \<Rightarrow> real \<Rightarrow> user list \<Rightarrow> user option" where
  "findNearestAuthority err dep lat lon users =
     fst (nearestLoop err lat lon (findAuthorities dep users) (None, Infinity))"

text \<open>
  The distance from a point to an account, when the account has coordinates and the
  distance is a number.
\<close>

definition distTo :: "rounding \<Rightarrow> real \<Rightarrow> real \<Rightarrow> user \<Rightarrow> real option" where
  "distTo err lat lon u =
     (case coordsOf u of
        None \<Rightarrow> None
      | Some (la, lo) \<Rightarrow>
          (case haversineDistance err lat lon la lo of Num d \<Rightarrow> Some d | _ \<Rightarrow> None))"

section \<open>Duplicate detection (specification, section 4.4)\<close>

text \<open>
  Modelled from the spec: the duplicate detector \<^verbatim>\<open>findDuplicate\<close>. The front end
  (App.js, \<^verbatim>\<open>handleSubmit\<close>) calls \<^verbatim>\<open>GET /issues/duplicates\<close> with a category, a
  latitude, a longitude and \<^verbatim>\<open>thresholdMeters\<close> 300 and reads \<^verbatim>\<open>duplicate\<close> with its
  \<^verbatim>\<open>distanceMeters\<close> from the response; the route itself is not among the sources. A
  terminal status is resolved or rejected.
\<close>

definition isTerminal :: "string \<Rightarrow> bool" where
  "isTerminal st = (st = ''resolved'' \<or> st = ''rejected'')"

text \<open>
  Modelled from the spec: the great-circle distance of section 4.1, in kilometres:
  \<^verbatim>\<open>a = sin^2(dlat/2) + cos(lat1) * cos(lat2) * sin^2(dlon/2)\<close> and the distance
  \<^verbatim>\<open>2 * R * atan2(sqrt(a), sqrt(1 - a))\<close> with \<^verbatim>\<open>R\<close> = 6371 km, the angles converted from
  degrees to radians.
\<close>

definition greatCircleKm :: "real \<Rightarrow> real \<Rightarrow> real \<Rightarrow> real \<Rightarrow> real" where
  "greatCircleKm lat1 lon1 lat2 lon2 =
     (let R = 6371;
          dLat = toRad (lat2 - lat1);
          dLon = toRad (lon2 - lon1);
          a = (sin (dLat / 2))\<^sup>2 + cos (toRad lat1) * cos (toRad lat2) * (sin (dLon / 2))\<^sup>2
      in 2 * R * atan2 (sqrt a) (sqrt (1 - a)))"

text \<open>
  Modelled from the spec: the distance from the reported position to an existing issue,
  in metres as the response gives it.
\<close>

definition distanceMeters :: "real \<Rightarrow> real \<Rightarrow> issue \<Rightarrow> real" where
  "distanceMeters lat lon x = 1000 * greatCircleKm lat lon (latitude x) (longitude x)"

text \<open>
  Modelled from the spec: a candidate, with its distance, is preferred to another when
  it is nearer, or equally near and created more recently.
\<close>

definition closerDuplicate :: "issue \<times> real \<Rightarrow> issue \<times> real \<Rightarrow> bool" where
  "closerDuplicate c b =
     (snd c < snd b \<or> (snd c = snd b \<and> createdAt (fst c) > createdAt (fst b)))"

text \<open>
  Modelled from the spec: the scan for the preferred candidate; \<open>best\<close> is the candidate
  preferred so far.
\<close>

fun nearestDuplicate :: "(issue \<times> real) list \<Rightarrow> (issue \<times> real) option \<Rightarrow> (issue \<times> real) option" where
  "nearestDuplicate [] best = best"
| "nearestDuplicate (c # cs) best =
     nearestDuplicate cs
       (case best of
          None \<Rightarrow> Some c
        | Some b \<Rightarrow> if closerDuplicate c b then Some c else Some b)"

text \<open>
  Modelled from the spec: the candidate pool is the existing issues that are not in a
  terminal state and have exactly the category asked for; among those within the
  threshold the nearest is returned with its distance, ties broken by the most recent
  creation, and "no duplicate" (\<open>None\<close>) when none lies within the threshold.
\<close>

definition findDuplicate ::
  "issue list \<Rightarrow> string \<Rightarrow> real \<Rightarrow> real \<Rightarrow> real \<Rightarrow> (issue \<times> real) option" where
  "findDuplicate issues cat lat lon thresholdMeters =
     (let pool = filter (\<lambda>x. \<not> isTerminal (status x) \<and> category x = cat) issues;
          measured = map (\<lambda>x. (x, distanceMeters lat lon x)) pool;
          nearby = filter (\<lambda>c. snd c \<le> thresholdMeters) measured
      in nearestDuplicate nearby None)"

text \<open>The first candidate is at most as far as the second and, when equally far, not older.\<close>

definition notFarther :: "issue \<times> real \<Rightarrow> issue \<times> real \<Rightarrow> bool" where
  "notFarther c' c =
     (snd c' \<le> snd c \<and> (snd c = snd c' \<longrightarrow> createdAt (fst c) \<le> createdAt (fst c')))"

section \<open>Example documents\<close>

text \<open>A high priority issue with one upvote, in progress and flagged overdue.\<close>

definition ex_issue :: issue where
  "ex_issue = \<lparr>iid = ''i1'', category = ''pothole'', priority = ''high'', status = ''in-progress'',
     latitude = 0, longitude = 0, reporter = ''u0'', comments = [], upvotes = 1,
     upvotedBy = [''u1''], targetResolutionTime = Some 82800000, isOverdue = True,
     estimatedResolution = None, resolvedAt = None, createdAt = 0, updatedAt = 0\<rparr>"

text \<open>A resolved medium priority issue without upvotes.\<close>

definition ex_resolved :: issue where
  "ex_resolved = \<lparr>iid = ''i2'', category = ''trash'', priority = ''medium'', status = ''resolved'',
     latitude = 0, longitude = 0, reporter = ''u0'', comments = [], upvotes = 0,
     upvotedBy = [], targetResolutionTime = Some 259200000, isOverdue = False,
     estimatedResolution = None, resolvedAt = Some 50, createdAt = 0, updatedAt = 50\<rparr>"

text \<open>The Sanitation authority of the seeding script.\<close>

definition ex_carla :: user where
  "ex_carla = \<lparr>uid = ''a3'', name = ''SAN - Carla'', email = ''carla.san@demo.com'',
     phone = ''+1-555-0203'', password = ''#'', role = ''authority'', isActive = True,
     department = Some ''Sanitation'',
     userLatitude = Some 40.7484, userLongitude = Some (- 73.9857)\<rparr>"

section \<open>Properties of the deadline policy\<close>

lemma time_fields:
  "MinFromTime t * msPerMinute + SecFromTime t * msPerSecond + msFromTime t = t mod msPerHour"
proof -
  have a: "t mod (1000 * 60) = 1000 * (t div 1000 mod 60) + t mod 1000"
    by (rule zmod_zmult2_eq) simp
  have b: "t mod (60000 * 60) = 60000 * (t div 60000 mod 60) + t mod 60000"
    by (rule zmod_zmult2_eq) simp
  from a b show ?thesis
    by (simp add: MinFromTime_def SecFromTime_def msFromTime_def msPerMinute_def
        msPerSecond_def msPerHour_def)
qed

lemma day_hour: "Day t * msPerDay + HourFromTime t * msPerHour + t mod msPerHour = t"
proof -
  have a: "t mod (3600000 * 24) = 3600000 * (t div 3600000 mod 24) + t mod 3600000"
    by (rule zmod_zmult2_eq) simp
  have b: "t div 86400000 * 86400000 + t mod 86400000 = t"
    by simp
  from a b show ?thesis
    by (simp add: Day_def HourFromTime_def msPerDay_def msPerHour_def)
qed

lemma baseTimeOf_cases: "baseTimeOf p = 24 \<or> baseTimeOf p = 72 \<or> baseTimeOf p = 168"
  by (simp add: baseTimeOf_def baseHours_def)

lemma finalHours_ge4: "4 \<le> finalHoursOf u p"
  by (simp add: finalHoursOf_def Let_def)

text \<open>Adding a non-negative number of hours through \<^verbatim>\<open>setHours\<close> drops its fraction.\<close>

lemma setHours_add:
  assumes "0 \<le> x"
  shows "setHours t (real_of_int (getHours t) + x) = t + \<lfloor>x\<rfloor> * msPerHour"
proof -
  have h0: "0 \<le> HourFromTime t"
    by (simp add: HourFromTime_def)
  have "ToIntegerOrInfinity (real_of_int (HourFromTime t) + x) = HourFromTime t + \<lfloor>x\<rfloor>"
    using assms h0 by (simp add: ToIntegerOrInfinity_def)
  then have "setHours t (real_of_int (getHours t) + x)
      = Day t * msPerDay + (HourFromTime t + \<lfloor>x\<rfloor>) * msPerHour + t mod msPerHour"
    using time_fields [of t] by (simp add: setHours_def getHours_def MakeDate_def MakeTime_def)
  also have "\<dots> = t + \<lfloor>x\<rfloor> * msPerHour"
    using day_hour [of t] by (simp add: algebra_simps)
  finally show ?thesis .
qed

lemma calculateTargetResolutionTime_eq:
  "calculateTargetResolutionTime u p t = t + \<lfloor>finalHoursOf u p\<rfloor> * msPerHour"
  using finalHours_ge4 [of u p]
  by (simp add: calculateTargetResolutionTime_def Let_def setHours_add)

lemma finalHours_antimono:
  assumes "u \<le> u'"
  shows "finalHoursOf u' p \<le> finalHoursOf u p"
proof -
  have r: "min (real_of_int u * 2) 50 \<le> min (real_of_int u' * 2) 50"
    using assms by simp
  have b: "0 \<le> baseTimeOf p"
    using baseTimeOf_cases [of p] by auto
  have "baseTimeOf p * (1 - min (real_of_int u' * 2) 50 / 100)
      \<le> baseTimeOf p * (1 - min (real_of_int u * 2) 50 / 100)"
    using r b by (intro mult_left_mono) simp_all
  then show ?thesis
    by (simp add: finalHoursOf_def Let_def max.coboundedI1)
qed

text \<open>
  C7: for every priority and upvote count, the deadline lies at least four hours after
  the creation time, and for a fixed priority the time added does not grow when the
  upvote count grows. (The code adds \<open>\<lfloor>finalHours\<rfloor>\<close> whole hours; both facts hold for
  every integer count, negative ones included.)
\<close>

theorem deadline_min_4h_and_antimono:
  "4 * msPerHour \<le> calculateTargetResolutionTime u p t - t \<and>
   (\<forall>u'. u \<le> u' \<longrightarrow>
      calculateTargetResolutionTime u' p t - t \<le> calculateTargetResolutionTime u p t - t)"
proof (intro conjI allI impI)
  have "4 \<le> \<lfloor>finalHoursOf u p\<rfloor>"
    using finalHours_ge4 [of u p] by (simp add: le_floor_iff)
  then show "4 * msPerHour \<le> calculateTargetResolutionTime u p t - t"
    by (simp add: calculateTargetResolutionTime_eq msPerHour_def)
next
  fix u' assume "u \<le> u'"
  then have "\<lfloor>finalHoursOf u' p\<rfloor> \<le> \<lfloor>finalHoursOf u p\<rfloor>"
    by (intro floor_mono finalHours_antimono)
  then show "calculateTargetResolutionTime u' p t - t \<le> calculateTargetResolutionTime u p t - t"
    by (simp add: calculateTargetResolutionTime_eq msPerHour_def)
qed

theorem deadline_min_4h_and_antimono_witness:
  "4 * msPerHour \<le> calculateTargetResolutionTime 3 ''high'' 1000 - 1000 \<and>
   (3::int) \<le> 30 \<and>
   calculateTargetResolutionTime 30 ''high'' 1000 - 1000
     \<le> calculateTargetResolutionTime 3 ''high'' 1000 - 1000 \<and>
   calculateTargetResolutionTime 3 ''high'' 1000 = 1000 + 22 * msPerHour \<and>
   calculateTargetResolutionTime 30 ''high'' 1000 = 1000 + 12 * msPerHour"
  using deadline_min_4h_and_antimono [of 3 "''high''" 1000]
  by (simp add: calculateTargetResolutionTime_eq finalHoursOf_def baseTimeOf_def baseHours_def)

lemma code_deadline_le_spec:
  "real_of_int (calculateTargetResolutionTime u p t) \<le> spec_computeDeadline p u t"
proof -
  have e: "spec_computeDeadline p u t = real_of_int t + finalHoursOf u p * 3600000"
    by (simp add: spec_computeDeadline_def finalHoursOf_def Let_def msPerHour_def mult.commute)
  have "real_of_int \<lfloor>finalHoursOf u p\<rfloor> \<le> finalHoursOf u p"
    by simp
  then have "real_of_int \<lfloor>finalHoursOf u p\<rfloor> * 3600000 \<le> finalHoursOf u p * 3600000"
    by simp
  then show ?thesis
    unfolding e by (simp add: calculateTargetResolutionTime_eq msPerHour_def)
qed

lemma finalHours_high_0: "finalHoursOf 0 ''high'' = 24"
  by (simp add: finalHoursOf_def baseTimeOf_def baseHours_def)

lemma finalHours_medium_25: "finalHoursOf 25 ''medium'' = 36"
  by (simp add: finalHoursOf_def baseTimeOf_def baseHours_def)

lemma finalHours_low_100: "finalHoursOf 100 ''low'' = 84"
  by (simp add: finalHoursOf_def baseTimeOf_def baseHours_def)

lemma finalHours_high_1: "finalHoursOf 1 ''high'' = 588 / 25"
  by (simp add: finalHoursOf_def baseTimeOf_def baseHours_def)

lemma baseTime_unlisted: "baseTimeOf ''urgent'' = baseTimeOf ''medium''"
  by (simp add: baseTimeOf_def baseHours_def)

lemma spec_deadline_high_1: "spec_computeDeadline ''high'' 1 t = real_of_int t + 84672000"
  by (simp add: spec_computeDeadline_def baseTimeOf_def baseHours_def msPerHour_def)

text \<open>
  C1: the three deadlines the specification lists are the code's: 24 hours for (high, 0),
  36 hours for (medium, 25) and 84 hours for (low, 100), and an unlisted priority gets
  the base of medium. The general formula is not the code's: \<^verbatim>\<open>setHours\<close> truncates the
  hour it is given, so for a high priority issue with one upvote the code adds 23 hours
  where the formula gives 23.52 hours (84672000 ms); the code never adds more than the
  formula does. (The numbers of hours of the three listed deadlines are exact in IEEE
  doubles too; for the upvote counts 1 to 24 the exact number of hours is at least 0.04
  away from a whole number, so rounding does not change its integer part.)
\<close>

theorem deadline_drops_fraction_of_hour:
  "calculateTargetResolutionTime 0 ''high'' t = t + 24 * msPerHour \<and>
   calculateTargetResolutionTime 25 ''medium'' t = t + 36 * msPerHour \<and>
   calculateTargetResolutionTime 100 ''low'' t = t + 84 * msPerHour \<and>
   calculateTargetResolutionTime 7 ''urgent'' t = calculateTargetResolutionTime 7 ''medium'' t \<and>
   calculateTargetResolutionTime 1 ''high'' t = t + 23 * msPerHour \<and>
   spec_computeDeadline ''high'' 1 t = real_of_int t + 84672000 \<and>
   real_of_int (calculateTargetResolutionTime 1 ''high'' t) < spec_computeDeadline ''high'' 1 t \<and>
   real_of_int (calculateTargetResolutionTime u p t) \<le> spec_computeDeadline p u t"
proof (intro conjI)
  show "calculateTargetResolutionTime 0 ''high'' t = t + 24 * msPerHour"
    by (simp add: calculateTargetResolutionTime_eq finalHours_high_0)
  show "calculateTargetResolutionTime 25 ''medium'' t = t + 36 * msPerHour"
    by (simp add: calculateTargetResolutionTime_eq finalHours_medium_25)
  show "calculateTargetResolutionTime 100 ''low'' t = t + 84 * msPerHour"
    by (simp add: calculateTargetResolutionTime_eq finalHours_low_100)
  show "calculateTargetResolutionTime 7 ''urgent'' t = calculateTargetResolutionTime 7 ''medium'' t"
    by (simp add: calculateTargetResolutionTime_eq finalHoursOf_def baseTime_unlisted)
  show c: "calculateTargetResolutionTime 1 ''high'' t = t + 23 * msPerHour"
    by (simp add: calculateTargetResolutionTime_eq finalHours_high_1)
  show "spec_computeDeadline ''high'' 1 t = real_of_int t + 84672000"
    by (rule spec_deadline_high_1)
  show "real_of_int (calculateTargetResolutionTime 1 ''high'' t) < spec_computeDeadline ''high'' 1 t"
    unfolding c spec_deadline_high_1 by (simp add: msPerHour_def)
  show "real_of_int (calculateTargetResolutionTime u p t) \<le> spec_computeDeadline p u t"
    by (rule code_deadline_le_spec)
qed

section \<open>Properties of the upvote routes\<close>

lemma applyUpvote_Inr:
  "uId \<notin> set (upvotedBy x) \<Longrightarrow>
   applyUpvote uId now x = Inr (x\<lparr>upvotedBy := upvotedBy x @ [uId], upvotes := upvotes x + 1,
      targetResolutionTime := Some (calculateTargetResolutionTime (upvotes x + 1) (priority x) (createdAt x)),
      isOverdue := checkIfOverdue now (Some (calculateTargetResolutionTime (upvotes x + 1) (priority x) (createdAt x))) (status x)\<rparr>)"
  by (simp add: applyUpvote_def Let_def)

lemma applyUnupvote_Inr:
  "uId \<in> set (upvotedBy x) \<Longrightarrow>
   applyUnupvote uId now x = Inr (x\<lparr>upvotedBy := filter (\<lambda>y. y \<noteq> uId) (upvotedBy x),
      upvotes := max 0 (upvotes x - 1),
      targetResolutionTime := Some (calculateTargetResolutionTime (max 0 (upvotes x - 1)) (priority x) (createdAt x)),
      isOverdue := checkIfOverdue now (Some (calculateTargetResolutionTime (max 0 (upvotes x - 1)) (priority x) (createdAt x))) (status x)\<rparr>)"
  by (simp add: applyUnupvote_def Let_def)

lemma applyUpvote_Inl: "uId \<in> set (upvotedBy x) \<Longrightarrow> applyUpvote uId now x = Inl AlreadyUpvoted"
  by (simp add: applyUpvote_def)

lemma applyUnupvote_Inl: "uId \<notin> set (upvotedBy x) \<Longrightarrow> applyUnupvote uId now x = Inl NotUpvoted"
  by (simp add: applyUnupvote_def)

lemma card_set_snoc: "u \<notin> set xs \<Longrightarrow> card (set (xs @ [u])) = Suc (card (set xs))"
  by simp

lemma card_set_remove: "u \<in> set xs \<Longrightarrow> Suc (card (set (filter (\<lambda>y. y \<noteq> u) xs))) = card (set xs)"
proof -
  assume u: "u \<in> set xs"
  have "set (filter (\<lambda>y. y \<noteq> u) xs) = set xs - {u}" by auto
  then show ?thesis using u by (simp add: card_Suc_Diff1 del: card_Diff_insert)
qed

lemma applyUpvote_inv:
  assumes "upvotes x = int (card (set (upvotedBy x)))" "applyUpvote u now x = Inr x'"
  shows "upvotes x' = int (card (set (upvotedBy x'))) \<and> upvotes x' = upvotes x + 1"
proof (cases "u \<in> set (upvotedBy x)")
  case True
  then show ?thesis using assms(2) by (simp add: applyUpvote_Inl)
next
  case False
  then show ?thesis using assms by (auto simp: applyUpvote_Inr)
qed

lemma applyUnupvote_inv:
  assumes "upvotes x = int (card (set (upvotedBy x)))" "applyUnupvote u now x = Inr x'"
  shows "upvotes x' = int (card (set (upvotedBy x'))) \<and> upvotes x' = upvotes x - 1"
proof (cases "u \<in> set (upvotedBy x)")
  case False
  then show ?thesis using assms(2) by (simp add: applyUnupvote_Inl)
next
  case True
  from card_set_remove [OF True] assms(1)
  have "upvotes x - 1 = int (card (set (filter (\<lambda>y. y \<noteq> u) (upvotedBy x))))" by linarith
  then show ?thesis using True assms(2) by (auto simp: applyUnupvote_Inr)
qed

lemma runCalls_count:
  "upvotes x = int (card (set (upvotedBy x))) \<Longrightarrow> runCalls cs x = (d, nu, nd) \<Longrightarrow>
   upvotes d = upvotes x + int nu - int nd \<and> upvotes d = int (card (set (upvotedBy d)))"
proof (induction cs x arbitrary: d nu nd rule: runCalls.induct)
  case (1 issue)
  then show ?case by simp
next
  case (2 u now cs issue)
  show ?case
  proof (cases "applyUpvote u now issue")
    case (Inl e)
    with "2.prems"(2) have "runCalls cs issue = (d, nu, nd)" by simp
    from "2.IH"(1) [OF Inl "2.prems"(1) this] show ?thesis .
  next
    case (Inr issue')
    obtain d' nu' nd' where r: "runCalls cs issue' = (d', nu', nd')"
      by (cases "runCalls cs issue'") auto
    from applyUpvote_inv [OF "2.prems"(1) Inr]
    have i: "upvotes issue' = int (card (set (upvotedBy issue')))" "upvotes issue' = upvotes issue + 1"
      by simp_all
    from "2.IH"(2) [OF Inr i(1) r] "2.prems"(2) Inr r i(2)
    show ?thesis by auto
  qed
next
  case (3 u now cs issue)
  show ?case
  proof (cases "applyUnupvote u now issue")
    case (Inl e)
    with "3.prems"(2) have "runCalls cs issue = (d, nu, nd)" by simp
    from "3.IH"(1) [OF Inl "3.prems"(1) this] show ?thesis .
  next
    case (Inr issue')
    obtain d' nu' nd' where r: "runCalls cs issue' = (d', nu', nd')"
      by (cases "runCalls cs issue'") auto
    from applyUnupvote_inv [OF "3.prems"(1) Inr]
    have i: "upvotes issue' = int (card (set (upvotedBy issue')))" "upvotes issue' = upvotes issue - 1"
      by simp_all
    from "3.IH"(2) [OF Inr i(1) r] "3.prems"(2) Inr r i(2)
    show ?thesis by auto
  qed
qed


lemma ex_inv: "upvotes ex_issue = int (card (set (upvotedBy ex_issue)))"
  by (simp add: ex_issue_def)

lemma calc_high_2: "calculateTargetResolutionTime 2 ''high'' 0 = 82800000"
  by (simp add: calculateTargetResolutionTime_eq finalHoursOf_def baseTimeOf_def baseHours_def msPerHour_def)

lemma calc_high_1: "calculateTargetResolutionTime 1 ''high'' 0 = 82800000"
  by (simp add: calculateTargetResolutionTime_eq finalHoursOf_def baseTimeOf_def baseHours_def msPerHour_def)


text \<open>
  The same with the upvoter set read as the array \<^verbatim>\<open>upvotedBy\<close> itself: when the array
  has no repeated id and the count is its length, both stay so.
\<close>

lemma upvote_keeps_distinct_length:
  assumes "distinct (upvotedBy x)" "upvotes x = int (length (upvotedBy x))"
  shows "applyUpvote u now x = Inr x' \<Longrightarrow>
           distinct (upvotedBy x') \<and> upvotes x' = int (length (upvotedBy x'))"
    and "applyUnupvote u now x = Inr x' \<Longrightarrow>
           distinct (upvotedBy x') \<and> upvotes x' = int (length (upvotedBy x'))"
proof -
  have c: "upvotes x = int (card (set (upvotedBy x)))"
    using assms by (simp add: distinct_card)
  {
    assume r: "applyUpvote u now x = Inr x'"
    then have n: "u \<notin> set (upvotedBy x)"
      by (auto simp: applyUpvote_def split: if_splits)
    with r assms(1) have d: "distinct (upvotedBy x')"
      by (auto simp: applyUpvote_Inr)
    with applyUpvote_inv [OF c r] show "distinct (upvotedBy x') \<and> upvotes x' = int (length (upvotedBy x'))"
      by (simp add: distinct_card)
  }
  {
    assume r: "applyUnupvote u now x = Inr x'"
    then have n: "u \<in> set (upvotedBy x)"
      by (auto simp: applyUnupvote_def split: if_splits)
    with r assms(1) have d: "distinct (upvotedBy x')"
      by (auto simp: applyUnupvote_Inr)
    with applyUnupvote_inv [OF c r] show "distinct (upvotedBy x') \<and> upvotes x' = int (length (upvotedBy x'))"
      by (simp add: distinct_card)
  }
qed

text \<open>
  C6: for an issue whose upvote count is the size of its upvoter set, an accepted upvote
  and an accepted un-upvote keep the count equal to the size of the set; hence after any
  sequence of upvote and un-upvote requests the final count is the initial count plus
  the number of accepted upvotes minus the number of accepted un-upvotes (for a new
  issue, whose count is 0, the difference of the two numbers), and it is still the size
  of the set.
\<close>

theorem upvote_count_matches_upvoter_set:
  assumes "upvotes x = int (card (set (upvotedBy x)))"
  shows "(\<forall>u now x'. applyUpvote u now x = Inr x' \<longrightarrow>
            upvotes x' = int (card (set (upvotedBy x')))) \<and>
         (\<forall>u now x'. applyUnupvote u now x = Inr x' \<longrightarrow>
            upvotes x' = int (card (set (upvotedBy x')))) \<and>
         (\<forall>cs d nu nd. runCalls cs x = (d, nu, nd) \<longrightarrow>
            upvotes d = int (card (set (upvotedBy d))) \<and>
            upvotes d = upvotes x + int nu - int nd \<and>
            (upvotes x = 0 \<longrightarrow> upvotes d = int nu - int nd))"
proof (intro conjI allI impI)
  fix u now x' assume "applyUpvote u now x = Inr x'"
  from applyUpvote_inv [OF assms this] show "upvotes x' = int (card (set (upvotedBy x')))" by simp
next
  fix u now x' assume "applyUnupvote u now x = Inr x'"
  from applyUnupvote_inv [OF assms this] show "upvotes x' = int (card (set (upvotedBy x')))" by simp
next
  fix cs d nu nd assume r: "runCalls cs x = (d, nu, nd)"
  from runCalls_count [OF assms r] show "upvotes d = int (card (set (upvotedBy d)))" by simp
  from runCalls_count [OF assms r] show "upvotes d = upvotes x + int nu - int nd" by simp
  assume "upvotes x = 0"
  with runCalls_count [OF assms r] show "upvotes d = int nu - int nd" by simp
qed

lemma ex_step1:
  "applyUpvote ''u2'' 5 ex_issue
     = Inr (ex_issue\<lparr>upvotedBy := [''u1'', ''u2''], upvotes := 2, isOverdue := False\<rparr>)"
  by (simp add: ex_issue_def applyUpvote_def Let_def calc_high_2 checkIfOverdue_def)

lemma ex_step2:
  "applyUpvote ''u2'' 6 (ex_issue\<lparr>upvotedBy := [''u1'', ''u2''], upvotes := 2, isOverdue := False\<rparr>)
     = Inl AlreadyUpvoted"
  by (simp add: applyUpvote_def)

lemma ex_step3:
  "applyUnupvote ''u1'' 7 (ex_issue\<lparr>upvotedBy := [''u1'', ''u2''], upvotes := 2, isOverdue := False\<rparr>)
     = Inr (ex_issue\<lparr>upvotedBy := [''u2''], upvotes := 1, isOverdue := False\<rparr>)"
  by (simp add: ex_issue_def applyUnupvote_def Let_def calc_high_1 checkIfOverdue_def)

lemma ex_run:
  "runCalls [Upvote ''u2'' 5, Upvote ''u2'' 6, Unupvote ''u1'' 7] ex_issue
     = (ex_issue\<lparr>upvotedBy := [''u2''], upvotes := 1, isOverdue := False\<rparr>, 1, 1)"
  by (simp add: ex_step1 ex_step2 ex_step3)

theorem upvote_count_matches_upvoter_set_witness:
  "upvotes ex_issue = int (card (set (upvotedBy ex_issue))) \<and>
   runCalls [Upvote ''u2'' 5, Upvote ''u2'' 6, Unupvote ''u1'' 7] ex_issue
     = (ex_issue\<lparr>upvotedBy := [''u2''], upvotes := 1, isOverdue := False\<rparr>, 1, 1) \<and>
   upvotes (ex_issue\<lparr>upvotedBy := [''u2''], upvotes := 1, isOverdue := False\<rparr>)
     = upvotes ex_issue + int 1 - int 1 \<and>
   upvotes (ex_issue\<lparr>upvotedBy := [''u2''], upvotes := 1, isOverdue := False\<rparr>)
     = int (card (set (upvotedBy (ex_issue\<lparr>upvotedBy := [''u2''], upvotes := 1, isOverdue := False\<rparr>))))"
proof -
  note t = upvote_count_matches_upvoter_set [OF ex_inv]
  from t ex_run
  have "upvotes (ex_issue\<lparr>upvotedBy := [''u2''], upvotes := 1, isOverdue := False\<rparr>)
          = int (card (set (upvotedBy (ex_issue\<lparr>upvotedBy := [''u2''], upvotes := 1, isOverdue := False\<rparr>))))
        \<and> upvotes (ex_issue\<lparr>upvotedBy := [''u2''], upvotes := 1, isOverdue := False\<rparr>)
          = upvotes ex_issue + int 1 - int 1"
    by blast
  with ex_inv ex_run show ?thesis by blast
qed

lemma post_upvote_found:
  assumes "findById db i = Some x"
  shows "post_upvote a i now db =
     (if userId a \<in> set (upvotedBy x) then (Inl AlreadyUpvoted, db)
      else
        (let target = calculateTargetResolutionTime (upvotes x + 1) (priority x) (createdAt x);
             x' = x\<lparr>upvotedBy := upvotedBy x @ [userId a], upvotes := upvotes x + 1,
                    targetResolutionTime := Some target,
                    isOverdue := checkIfOverdue now (Some target) (status x)\<rparr>
         in (Inr (upvotes x + 1), save x' db)))"
  using assms by (simp add: post_upvote_def applyUpvote_Inl applyUpvote_Inr Let_def)

lemma delete_upvote_found:
  assumes "findById db i = Some x"
  shows "delete_upvote a i now db =
     (if userId a \<notin> set (upvotedBy x) then (Inl NotUpvoted, db)
      else
        (let target = calculateTargetResolutionTime (max 0 (upvotes x - 1)) (priority x) (createdAt x);
             x' = x\<lparr>upvotedBy := filter (\<lambda>y. y \<noteq> userId a) (upvotedBy x),
                    upvotes := max 0 (upvotes x - 1),
                    targetResolutionTime := Some target,
                    isOverdue := checkIfOverdue now (Some target) (status x)\<rparr>
         in (Inr (max 0 (upvotes x - 1)), save x' db)))"
  using assms by (simp add: delete_upvote_def applyUnupvote_Inl applyUnupvote_Inr Let_def)

text \<open>
  C9: for an issue found in the collection, the upvote request is rejected with the
  already-upvoted error, the collection left as it was, exactly when the actor is in
  the upvoter set of the issue, and the un-upvote request is rejected with the
  not-upvoted error, the collection left as it was, exactly when the actor is not in
  it. Otherwise the request is accepted: the one document that is saved has the new
  upvoter set and count, the deadline computed from the new count, and the overdue
  flag computed from that deadline.
\<close>

theorem upvote_conflict_or_recompute:
  assumes "findById db i = Some x"
  shows
    "((post_upvote a i now db = (Inl AlreadyUpvoted, db)) = (userId a \<in> set (upvotedBy x))) \<and>
     (isl (fst (post_upvote a i now db)) = (userId a \<in> set (upvotedBy x))) \<and>
     ((delete_upvote a i now db = (Inl NotUpvoted, db)) = (userId a \<notin> set (upvotedBy x))) \<and>
     (isl (fst (delete_upvote a i now db)) = (userId a \<notin> set (upvotedBy x))) \<and>
     (userId a \<notin> set (upvotedBy x) \<longrightarrow>
        (let target = calculateTargetResolutionTime (upvotes x + 1) (priority x) (createdAt x)
         in post_upvote a i now db =
              (Inr (upvotes x + 1),
               save (x\<lparr>upvotedBy := upvotedBy x @ [userId a], upvotes := upvotes x + 1,
                       targetResolutionTime := Some target,
                       isOverdue := checkIfOverdue now (Some target) (status x)\<rparr>) db))) \<and>
     (userId a \<in> set (upvotedBy x) \<longrightarrow>
        (let target = calculateTargetResolutionTime (max 0 (upvotes x - 1)) (priority x) (createdAt x)
         in delete_upvote a i now db =
              (Inr (max 0 (upvotes x - 1)),
               save (x\<lparr>upvotedBy := filter (\<lambda>y. y \<noteq> userId a) (upvotedBy x),
                       upvotes := max 0 (upvotes x - 1),
                       targetResolutionTime := Some target,
                       isOverdue := checkIfOverdue now (Some target) (status x)\<rparr>) db)))"
proof (intro conjI impI)
  show "(post_upvote a i now db = (Inl AlreadyUpvoted, db)) = (userId a \<in> set (upvotedBy x))"
    by (simp add: post_upvote_found [OF assms] Let_def)
  show "isl (fst (post_upvote a i now db)) = (userId a \<in> set (upvotedBy x))"
    by (simp add: post_upvote_found [OF assms] Let_def)
  show "(delete_upvote a i now db = (Inl NotUpvoted, db)) = (userId a \<notin> set (upvotedBy x))"
    by (simp add: delete_upvote_found [OF assms] Let_def)
  show "isl (fst (delete_upvote a i now db)) = (userId a \<notin> set (upvotedBy x))"
    by (simp add: delete_upvote_found [OF assms] Let_def)
next
  assume "userId a \<notin> set (upvotedBy x)"
  then show "let target = calculateTargetResolutionTime (upvotes x + 1) (priority x) (createdAt x)
         in post_upvote a i now db =
              (Inr (upvotes x + 1),
               save (x\<lparr>upvotedBy := upvotedBy x @ [userId a], upvotes := upvotes x + 1,
                       targetResolutionTime := Some target,
                       isOverdue := checkIfOverdue now (Some target) (status x)\<rparr>) db)"
    by (simp add: post_upvote_found [OF assms] Let_def)
next
  assume "userId a \<in> set (upvotedBy x)"
  then show "let target = calculateTargetResolutionTime (max 0 (upvotes x - 1)) (priority x) (createdAt x)
         in delete_upvote a i now db =
              (Inr (max 0 (upvotes x - 1)),
               save (x\<lparr>upvotedBy := filter (\<lambda>y. y \<noteq> userId a) (upvotedBy x),
                       upvotes := max 0 (upvotes x - 1),
                       targetResolutionTime := Some target,
                       isOverdue := checkIfOverdue now (Some target) (status x)\<rparr>) db)"
    by (simp add: delete_upvote_found [OF assms] Let_def)
qed

lemma calc_high_0: "calculateTargetResolutionTime 0 ''high'' 0 = 86400000"
  by (simp add: calculateTargetResolutionTime_eq finalHoursOf_def baseTimeOf_def baseHours_def msPerHour_def)

lemma ex_step_del:
  "applyUnupvote ''u1'' 5 ex_issue
     = Inr (ex_issue\<lparr>upvotedBy := [], upvotes := 0,
          targetResolutionTime := Some 86400000, isOverdue := False\<rparr>)"
  by (simp add: ex_issue_def applyUnupvote_def Let_def calc_high_0 checkIfOverdue_def)

lemma ex_found: "findById [ex_issue] ''i1'' = Some ex_issue"
  by (simp add: findById_def ex_issue_def)

theorem upvote_conflict_or_recompute_witness:
  "findById [ex_issue] ''i1'' = Some ex_issue \<and>
   post_upvote \<lparr>userId = ''u1'', actorRole = ''citizen''\<rparr> ''i1'' 5 [ex_issue]
     = (Inl AlreadyUpvoted, [ex_issue]) \<and>
   delete_upvote \<lparr>userId = ''u2'', actorRole = ''citizen''\<rparr> ''i1'' 5 [ex_issue]
     = (Inl NotUpvoted, [ex_issue]) \<and>
   post_upvote \<lparr>userId = ''u2'', actorRole = ''citizen''\<rparr> ''i1'' 5 [ex_issue]
     = (Inr 2, [ex_issue\<lparr>upvotedBy := [''u1'', ''u2''], upvotes := 2, isOverdue := False\<rparr>]) \<and>
   delete_upvote \<lparr>userId = ''u1'', actorRole = ''citizen''\<rparr> ''i1'' 5 [ex_issue]
     = (Inr 0, [ex_issue\<lparr>upvotedBy := [], upvotes := 0,
          targetResolutionTime := Some 86400000, isOverdue := False\<rparr>])"
proof -
  note t1 = upvote_conflict_or_recompute [OF ex_found, of "\<lparr>userId = ''u1'', actorRole = ''citizen''\<rparr>" 5]
  note t2 = upvote_conflict_or_recompute [OF ex_found, of "\<lparr>userId = ''u2'', actorRole = ''citizen''\<rparr>" 5]
  have m1: "userId \<lparr>userId = ''u1'', actorRole = ''citizen''\<rparr> \<in> set (upvotedBy ex_issue)"
    by (simp add: ex_issue_def)
  have m2: "userId \<lparr>userId = ''u2'', actorRole = ''citizen''\<rparr> \<notin> set (upvotedBy ex_issue)"
    by (simp add: ex_issue_def)
  have a: "post_upvote \<lparr>userId = ''u1'', actorRole = ''citizen''\<rparr> ''i1'' 5 [ex_issue]
     = (Inl AlreadyUpvoted, [ex_issue])"
    using t1 m1 by blast
  have b: "delete_upvote \<lparr>userId = ''u2'', actorRole = ''citizen''\<rparr> ''i1'' 5 [ex_issue]
     = (Inl NotUpvoted, [ex_issue])"
    using t2 m2 by blast
  have c: "post_upvote \<lparr>userId = ''u2'', actorRole = ''citizen''\<rparr> ''i1'' 5 [ex_issue]
     = (Inr 2, [ex_issue\<lparr>upvotedBy := [''u1'', ''u2''], upvotes := 2, isOverdue := False\<rparr>])"
    by (simp add: post_upvote_def ex_found ex_step1 save_def)
  have d: "delete_upvote \<lparr>userId = ''u1'', actorRole = ''citizen''\<rparr> ''i1'' 5 [ex_issue]
     = (Inr 0, [ex_issue\<lparr>upvotedBy := [], upvotes := 0,
          targetResolutionTime := Some 86400000, isOverdue := False\<rparr>])"
    by (simp add: delete_upvote_def ex_found ex_step_del save_def)
  from ex_found a b c d show ?thesis by blast
qed

section \<open>Properties of the batch refresh\<close>

lemma updateOverdueLoop_fixed:
  "\<forall>x\<in>set xs. flagCurrent now x \<Longrightarrow> updateOverdueLoop now xs (db, n) = (db, n)"
  by (induction xs) (simp_all add: flagCurrent_def Let_def)

lemma set_save:
  "y \<in> set (save x db) \<Longrightarrow> y = x \<or> (y \<in> set db \<and> iid y \<noteq> iid x)"
  by (auto simp: save_def split: if_splits)

lemma updateOverdueLoop_current:
  assumes "\<forall>y\<in>set db. overdueQuery y \<longrightarrow> y \<in> set xs \<or> flagCurrent now y"
    and "\<forall>x\<in>set xs. overdueQuery x"
  shows "\<forall>y\<in>set (fst (updateOverdueLoop now xs (db, n))). overdueQuery y \<longrightarrow> flagCurrent now y"
  using assms
proof (induction xs arbitrary: db n)
  case Nil
  then show ?case by simp
next
  case (Cons x xs)
  let ?o = "checkIfOverdue now (targetResolutionTime x) (status x)"
  show ?case
  proof (cases "isOverdue x = ?o")
    case True
    then have cur: "flagCurrent now x" by (simp add: flagCurrent_def)
    have "\<forall>y\<in>set db. overdueQuery y \<longrightarrow> y \<in> set xs \<or> flagCurrent now y"
      using Cons.prems(1) cur by auto
    from Cons.IH [OF this, of n] Cons.prems(2) True show ?thesis
      by (simp add: Let_def)
  next
    case False
    let ?x' = "x\<lparr>isOverdue := ?o\<rparr>"
    have x': "overdueQuery ?x'" "flagCurrent now ?x'"
      using Cons.prems(2) by (simp_all add: overdueQuery_def flagCurrent_def)
    have "\<forall>y\<in>set (save ?x' db). overdueQuery y \<longrightarrow> y \<in> set xs \<or> flagCurrent now y"
    proof (intro ballI impI)
      fix y assume y: "y \<in> set (save ?x' db)" and q: "overdueQuery y"
      from set_save [OF y] show "y \<in> set xs \<or> flagCurrent now y"
      proof
        assume "y = ?x'" then show ?thesis using x' by simp
      next
        assume a: "y \<in> set db \<and> iid y \<noteq> iid ?x'"
        then have "y \<noteq> x" by auto
        with a q Cons.prems(1) show ?thesis by auto
      qed
    qed
    from Cons.IH [OF this, of "n + 1"] Cons.prems(2) False show ?thesis
      by (simp add: Let_def)
  qed
qed

lemma refresh_current:
  "\<forall>y\<in>set (fst (updateOverdueLoop now (filter overdueQuery db) (db, 0))). overdueQuery y \<longrightarrow> flagCurrent now y"
  by (rule updateOverdueLoop_current) auto

lemma refresh_fixed:
  assumes "\<forall>y\<in>set db. overdueQuery y \<longrightarrow> flagCurrent now y"
  shows "updateOverdueLoop now (filter overdueQuery db) (db, 0) = (db, 0)"
  by (rule updateOverdueLoop_fixed) (use assms in auto)


lemma updateOverdueLoop_count:
  "snd (updateOverdueLoop now xs (db, n)) =
     n + length (filter (\<lambda>x. isOverdue x \<noteq> checkIfOverdue now (targetResolutionTime x) (status x)) xs)"
  by (induction xs arbitrary: db n) (simp_all add: Let_def)

text \<open>
  C8: the batch refresh is idempotent. When a first request has run at the clock reading
  \<open>now\<close>, a second request at the same reading changes no document, and for an
  administrator it answers \<^verbatim>\<open>updatedCount\<close> 0: it saves nothing. (A request of another
  role is refused and saves nothing either.) The count a request answers is the number
  of documents the query returns whose stored flag differs from the recomputed one: a
  document is saved only then.
\<close>

theorem refresh_overdue_idempotent:
  assumes "post_update_overdue a now db = (r, db1)"
  shows "snd (post_update_overdue a now db1) = db1 \<and>
         (actorRole a = ''admin'' \<longrightarrow>
            post_update_overdue a now db1 = (Inr 0, db1) \<and>
            r = Inr (length (filter
                  (\<lambda>x. isOverdue x \<noteq> checkIfOverdue now (targetResolutionTime x) (status x))
                  (filter overdueQuery db))))"
proof (cases "actorRole a = ''admin''")
  case False
  then show ?thesis by (simp add: post_update_overdue_def)
next
  case True
  with assms have d: "db1 = fst (updateOverdueLoop now (filter overdueQuery db) (db, 0))"
    and r: "r = Inr (snd (updateOverdueLoop now (filter overdueQuery db) (db, 0)))"
    by (auto simp: post_update_overdue_def split: prod.splits)
  from d refresh_current [of now db]
  have "\<forall>y\<in>set db1. overdueQuery y \<longrightarrow> flagCurrent now y" by simp
  from refresh_fixed [OF this] True r show ?thesis
    by (simp add: post_update_overdue_def updateOverdueLoop_count)
qed

lemma ex_refresh1:
  "post_update_overdue \<lparr>userId = ''a1'', actorRole = ''admin''\<rparr> 5 [ex_issue]
     = (Inr 1, [ex_issue\<lparr>isOverdue := False\<rparr>])"
  by (simp add: post_update_overdue_def overdueQuery_def ex_issue_def checkIfOverdue_def save_def)

theorem refresh_overdue_idempotent_witness:
  "post_update_overdue \<lparr>userId = ''a1'', actorRole = ''admin''\<rparr> 5 [ex_issue]
     = (Inr 1, [ex_issue\<lparr>isOverdue := False\<rparr>]) \<and>
   actorRole \<lparr>userId = ''a1'', actorRole = ''admin''\<rparr> = ''admin'' \<and>
   post_update_overdue \<lparr>userId = ''a1'', actorRole = ''admin''\<rparr> 5 [ex_issue\<lparr>isOverdue := False\<rparr>]
     = (Inr 0, [ex_issue\<lparr>isOverdue := False\<rparr>])"
proof -
  have r: "actorRole \<lparr>userId = ''a1'', actorRole = ''admin''\<rparr> = ''admin''"
    by simp
  from refresh_overdue_idempotent [OF ex_refresh1] r ex_refresh1 show ?thesis
    by blast
qed

section \<open>Properties of the status route\<close>

lemma save_save: "iid x' = iid x \<Longrightarrow> save x' (save x db) = save x' db"
  by (simp add: save_def)

lemma put_status_not_admin:
  "actorRole a \<noteq> ''admin'' \<Longrightarrow> put_status a idp b now db = (Inl AdminAccessRequired, db)"
  by (simp add: put_status_def)

lemma put_status_bad_id:
  "actorRole a = ''admin'' \<Longrightarrow> put_status a None b now db = (Inl InternalError, db)"
  by (simp add: put_status_def)

lemma put_status_bad_date:
  "actorRole a = ''admin'' \<Longrightarrow> bodyEstimatedResolution b = Some None \<Longrightarrow>
   put_status a idp b now db = (Inl InternalError, db)"
  by (simp add: put_status_def split: option.splits)

lemma put_status_not_found:
  "actorRole a = ''admin'' \<Longrightarrow> bodyEstimatedResolution b \<noteq> Some None \<Longrightarrow>
   findById db i = None \<Longrightarrow> put_status a (Some i) b now db = (Inl IssueNotFound, db)"
  by (simp add: put_status_def)

lemma updatedIssue_fields:
  "status (updatedIssue b now doc) = bodyStatus b"
  "iid (updatedIssue b now doc) = iid doc"
  "isOverdue (updatedIssue b now doc) = isOverdue doc"
  "category (updatedIssue b now doc) = category doc"
  "priority (updatedIssue b now doc) = priority doc"
  "comments (updatedIssue b now doc) = comments doc"
  "bodyStatus b = ''resolved'' \<Longrightarrow> resolvedAt (updatedIssue b now doc) = Some now"
  by (simp_all add: updatedIssue_def Let_def split: option.splits)

lemma put_status_found:
  assumes "actorRole a = ''admin''" "bodyEstimatedResolution b \<noteq> Some None"
    "findById db i = Some doc"
  shows "put_status a (Some i) b now db =
     (case bodyComment b of
        None \<Rightarrow> (Inr (updatedIssue b now doc), save (updatedIssue b now doc) db)
      | Some c \<Rightarrow>
          if c = [] then (Inr (updatedIssue b now doc), save (updatedIssue b now doc) db)
          else if validIssue ((updatedIssue b now doc)\<lparr>comments := comments doc @ [(userId a, c, now)]\<rparr>)
          then (Inr ((updatedIssue b now doc)\<lparr>comments := comments doc @ [(userId a, c, now)]\<rparr>),
                save ((updatedIssue b now doc)\<lparr>comments := comments doc @ [(userId a, c, now)]\<rparr>) db)
          else (Inl InternalError, save (updatedIssue b now doc) db))"
  using assms
  by (auto simp: put_status_def updatedIssue_def Let_def save_save split: option.splits)

lemma validIssue_after_comment:
  assumes "validIssue doc" "bodyStatus b \<in> set statusEnum" "c \<noteq> []"
  shows "validIssue ((updatedIssue b now doc)\<lparr>comments := comments doc @ [(u, c, now)]\<rparr>)"
  using assms by (simp add: validIssue_def updatedIssue_fields)

lemma put_status_accepts:
  assumes "actorRole a = ''admin''" "bodyEstimatedResolution b \<noteq> Some None"
    "findById db i = Some doc" "validIssue doc" "bodyStatus b \<in> set statusEnum"
  shows "\<exists>issue. put_status a (Some i) b now db = (Inr issue, save issue db) \<and>
           status issue = bodyStatus b \<and> iid issue = iid doc"
proof (cases "bodyComment b")
  case None
  then show ?thesis
    by (simp add: put_status_found [OF assms(1-3)] updatedIssue_fields)
next
  case (Some c)
  show ?thesis
  proof (cases "c = []")
    case True
    with Some show ?thesis
      by (simp add: put_status_found [OF assms(1-3)] updatedIssue_fields)
  next
    case False
    from validIssue_after_comment [OF assms(4,5) False]
    have "validIssue ((updatedIssue b now doc)\<lparr>comments := comments doc @ [(userId a, c, now)]\<rparr>)" .
    with Some False show ?thesis
      by (simp add: put_status_found [OF assms(1-3)] updatedIssue_fields)
  qed
qed

text \<open>
  C3, as amended: the status route checks no transition table; its only gate is the role
  of the actor. A request of an actor whose role is not admin is refused (403, admin
  access required), and a request of an administrator is refused when the id does not
  cast (500) or no issue has the id (404); each refusal leaves the collection as it was.
  A request of an administrator for a stored issue that satisfies the schema, with a
  target status of the enumeration (and an estimate that is absent or a date), is
  accepted whatever the current status is, and the stored issue gets the target status.
  (Nothing is said here of a target outside the enumeration.)
\<close>

theorem status_change_gated_by_admin_only:
  "(actorRole a \<noteq> ''admin'' \<longrightarrow> put_status a idp b now db = (Inl AdminAccessRequired, db)) \<and>
   (actorRole a = ''admin'' \<longrightarrow> put_status a None b now db = (Inl InternalError, db)) \<and>
   (actorRole a = ''admin'' \<longrightarrow> bodyEstimatedResolution b \<noteq> Some None \<longrightarrow>
      findById db i = None \<longrightarrow> put_status a (Some i) b now db = (Inl IssueNotFound, db)) \<and>
   (actorRole a = ''admin'' \<longrightarrow> bodyEstimatedResolution b \<noteq> Some None \<longrightarrow>
      bodyStatus b \<in> set statusEnum \<longrightarrow>
      (\<forall>doc. findById db i = Some doc \<longrightarrow> validIssue doc \<longrightarrow>
         (\<exists>issue. put_status a (Some i) b now db = (Inr issue, save issue db) \<and>
            status issue = bodyStatus b \<and> iid issue = iid doc)))"
proof (intro conjI impI allI)
  assume "actorRole a \<noteq> ''admin''"
  then show "put_status a idp b now db = (Inl AdminAccessRequired, db)"
    by (rule put_status_not_admin)
next
  assume "actorRole a = ''admin''"
  then show "put_status a None b now db = (Inl InternalError, db)"
    by (rule put_status_bad_id)
next
  assume "actorRole a = ''admin''" "bodyEstimatedResolution b \<noteq> Some None" "findById db i = None"
  then show "put_status a (Some i) b now db = (Inl IssueNotFound, db)"
    by (rule put_status_not_found)
next
  fix doc
  assume "actorRole a = ''admin''" "bodyEstimatedResolution b \<noteq> Some None"
    "bodyStatus b \<in> set statusEnum" "findById db i = Some doc" "validIssue doc"
  then show "\<exists>issue. put_status a (Some i) b now db = (Inr issue, save issue db) \<and>
            status issue = bodyStatus b \<and> iid issue = iid doc"
    by (intro put_status_accepts)
qed

lemma ex_resolved_found: "findById [ex_resolved] ''i2'' = Some ex_resolved"
  by (simp add: findById_def ex_resolved_def)

lemma ex_resolved_valid: "validIssue ex_resolved"
  by (simp add: validIssue_def ex_resolved_def categoryEnum_def priorityEnum_def statusEnum_def)

lemma ex_reopen_by_admin:
  "put_status \<lparr>userId = ''a1'', actorRole = ''admin''\<rparr> (Some ''i2'')
      \<lparr>bodyStatus = ''in-progress'', bodyComment = None, bodyEstimatedResolution = None\<rparr> 70
      [ex_resolved]
    = (Inr (ex_resolved\<lparr>status := ''in-progress'', updatedAt := 70\<rparr>),
       [ex_resolved\<lparr>status := ''in-progress'', updatedAt := 70\<rparr>])"
  by (simp add: put_status_def ex_resolved_found save_def Let_def)

text \<open>
  C3, as stated, fails: the transition table of the specification does not permit an
  administrator to move a resolved issue to in-progress, yet the route accepts the
  request and the stored issue changes.
\<close>

theorem status_change_unchecked_counterexample:
  "\<not> spec_transition_permitted ''admin'' (status ex_resolved) ''in-progress'' \<and>
   put_status \<lparr>userId = ''a1'', actorRole = ''admin''\<rparr> (Some ''i2'')
      \<lparr>bodyStatus = ''in-progress'', bodyComment = None, bodyEstimatedResolution = None\<rparr> 70
      [ex_resolved]
    = (Inr (ex_resolved\<lparr>status := ''in-progress'', updatedAt := 70\<rparr>),
       [ex_resolved\<lparr>status := ''in-progress'', updatedAt := 70\<rparr>]) \<and>
   [ex_resolved\<lparr>status := ''in-progress'', updatedAt := 70\<rparr>] \<noteq> [ex_resolved]"
proof (intro conjI)
  show "\<not> spec_transition_permitted ''admin'' (status ex_resolved) ''in-progress''"
    by (simp add: spec_transition_permitted_def ex_resolved_def)
  show "put_status \<lparr>userId = ''a1'', actorRole = ''admin''\<rparr> (Some ''i2'')
      \<lparr>bodyStatus = ''in-progress'', bodyComment = None, bodyEstimatedResolution = None\<rparr> 70
      [ex_resolved]
    = (Inr (ex_resolved\<lparr>status := ''in-progress'', updatedAt := 70\<rparr>),
       [ex_resolved\<lparr>status := ''in-progress'', updatedAt := 70\<rparr>])"
    by (rule ex_reopen_by_admin)
  show "[ex_resolved\<lparr>status := ''in-progress'', updatedAt := 70\<rparr>] \<noteq> [ex_resolved]"
    by (simp add: ex_resolved_def)
qed

lemma ex_reopen_with_comment:
  "put_status \<lparr>userId = ''a1'', actorRole = ''admin''\<rparr> (Some ''i2'')
      \<lparr>bodyStatus = ''pending'', bodyComment = Some ''again'', bodyEstimatedResolution = None\<rparr> 70
      [ex_resolved]
    = (Inr (ex_resolved\<lparr>status := ''pending'', updatedAt := 70, comments := [(''a1'', ''again'', 70)]\<rparr>),
       [ex_resolved\<lparr>status := ''pending'', updatedAt := 70, comments := [(''a1'', ''again'', 70)]\<rparr>])"
  by (simp add: put_status_def ex_resolved_found save_def Let_def)
    (simp add: validIssue_def ex_resolved_def categoryEnum_def priorityEnum_def statusEnum_def)

text \<open>
  A citizen's request is refused; an administrator's request with a comment moves the
  resolved issue back to pending; an id that does not cast and an unknown id are refused.
\<close>

theorem status_change_gated_by_admin_only_witness:
  "actorRole \<lparr>userId = ''u0'', actorRole = ''citizen''\<rparr> \<noteq> ''admin'' \<and>
   put_status \<lparr>userId = ''u0'', actorRole = ''citizen''\<rparr> (Some ''i2'')
      \<lparr>bodyStatus = ''pending'', bodyComment = Some ''again'', bodyEstimatedResolution = None\<rparr> 70
      [ex_resolved]
    = (Inl AdminAccessRequired, [ex_resolved]) \<and>
   actorRole \<lparr>userId = ''a1'', actorRole = ''admin''\<rparr> = ''admin'' \<and>
   bodyEstimatedResolution
      \<lparr>bodyStatus = ''pending'', bodyComment = Some ''again'', bodyEstimatedResolution = None\<rparr>
     \<noteq> Some None \<and>
   bodyStatus
      \<lparr>bodyStatus = ''pending'', bodyComment = Some ''again'', bodyEstimatedResolution = None\<rparr>
     \<in> set statusEnum \<and>
   findById [ex_resolved] ''i2'' = Some ex_resolved \<and>
   validIssue ex_resolved \<and>
   put_status \<lparr>userId = ''a1'', actorRole = ''admin''\<rparr> (Some ''i2'')
      \<lparr>bodyStatus = ''pending'', bodyComment = Some ''again'', bodyEstimatedResolution = None\<rparr> 70
      [ex_resolved]
    = (Inr (ex_resolved\<lparr>status := ''pending'', updatedAt := 70, comments := [(''a1'', ''again'', 70)]\<rparr>),
       [ex_resolved\<lparr>status := ''pending'', updatedAt := 70, comments := [(''a1'', ''again'', 70)]\<rparr>]) \<and>
   (\<exists>issue. put_status \<lparr>userId = ''a1'', actorRole = ''admin''\<rparr> (Some ''i2'')
      \<lparr>bodyStatus = ''pending'', bodyComment = Some ''again'', bodyEstimatedResolution = None\<rparr> 70
      [ex_resolved] = (Inr issue, save issue [ex_resolved]) \<and>
      status issue = ''pending'' \<and> iid issue = ''i2'') \<and>
   put_status \<lparr>userId = ''a1'', actorRole = ''admin''\<rparr> None
      \<lparr>bodyStatus = ''pending'', bodyComment = Some ''again'', bodyEstimatedResolution = None\<rparr> 70
      [ex_resolved]
    = (Inl InternalError, [ex_resolved]) \<and>
   findById [ex_resolved] ''i9'' = None \<and>
   put_status \<lparr>userId = ''a1'', actorRole = ''admin''\<rparr> (Some ''i9'')
      \<lparr>bodyStatus = ''pending'', bodyComment = Some ''again'', bodyEstimatedResolution = None\<rparr> 70
      [ex_resolved]
    = (Inl IssueNotFound, [ex_resolved])"
proof -
  let ?b = "\<lparr>bodyStatus = ''pending'', bodyComment = Some ''again'', bodyEstimatedResolution = None\<rparr>"
  let ?adm = "\<lparr>userId = ''a1'', actorRole = ''admin''\<rparr>"
  let ?cit = "\<lparr>userId = ''u0'', actorRole = ''citizen''\<rparr>"
  have c: "actorRole ?cit \<noteq> ''admin''"
    by simp
  have a: "actorRole ?adm = ''admin''"
    by simp
  have e: "bodyEstimatedResolution ?b \<noteq> Some None"
    by simp
  have s: "bodyStatus ?b \<in> set statusEnum"
    by (simp add: statusEnum_def)
  have s': "bodyStatus ?b = ''pending''"
    by simp
  have n: "findById [ex_resolved] ''i9'' = None"
    by (simp add: findById_def ex_resolved_def)
  have i: "iid ex_resolved = ''i2''"
    by (simp add: ex_resolved_def)
  note t1 = status_change_gated_by_admin_only [of ?cit "Some ''i2''" ?b 70 "[ex_resolved]" "''i2''"]
  note t2 = status_change_gated_by_admin_only [of ?adm "Some ''i2''" ?b 70 "[ex_resolved]" "''i2''"]
  note t3 = status_change_gated_by_admin_only [of ?adm "Some ''i9''" ?b 70 "[ex_resolved]" "''i9''"]
  from t1 c have r1: "put_status ?cit (Some ''i2'') ?b 70 [ex_resolved]
      = (Inl AdminAccessRequired, [ex_resolved])"
    by blast
  from t2 a e s ex_resolved_found ex_resolved_valid
  have "\<exists>issue. put_status ?adm (Some ''i2'') ?b 70 [ex_resolved] = (Inr issue, save issue [ex_resolved]) \<and>
      status issue = bodyStatus ?b \<and> iid issue = iid ex_resolved"
    by blast
  then have r2: "\<exists>issue. put_status ?adm (Some ''i2'') ?b 70 [ex_resolved]
      = (Inr issue, save issue [ex_resolved]) \<and> status issue = ''pending'' \<and> iid issue = ''i2''"
    unfolding s' i .
  from t2 a have r4: "put_status ?adm None ?b 70 [ex_resolved] = (Inl InternalError, [ex_resolved])"
    by blast
  from t3 a e n have r3: "put_status ?adm (Some ''i9'') ?b 70 [ex_resolved]
      = (Inl IssueNotFound, [ex_resolved])"
    by blast
  from c r1 a e s ex_resolved_found ex_resolved_valid ex_reopen_with_comment r2 r4 n r3
  show ?thesis
    by blast
qed

text \<open>
  A target outside the enumeration, sent with a comment: \<^verbatim>\<open>findByIdAndUpdate\<close> stores
  the status, the validation of the \<^verbatim>\<open>save\<close> fails, and the route answers 500 with the
  comment not stored. Without a comment the request is answered 200.
\<close>

lemma put_status_unlisted_status:
  "put_status \<lparr>userId = ''a1'', actorRole = ''admin''\<rparr> (Some ''i2'')
      \<lparr>bodyStatus = ''bogus'', bodyComment = Some ''again'', bodyEstimatedResolution = None\<rparr> 70
      [ex_resolved]
    = (Inl InternalError, [ex_resolved\<lparr>status := ''bogus'', updatedAt := 70\<rparr>])"
  "put_status \<lparr>userId = ''a1'', actorRole = ''admin''\<rparr> (Some ''i2'')
      \<lparr>bodyStatus = ''bogus'', bodyComment = None, bodyEstimatedResolution = None\<rparr> 70
      [ex_resolved]
    = (Inr (ex_resolved\<lparr>status := ''bogus'', updatedAt := 70\<rparr>),
       [ex_resolved\<lparr>status := ''bogus'', updatedAt := 70\<rparr>])"
  by (simp_all add: put_status_def ex_resolved_found save_def Let_def validIssue_def statusEnum_def)

lemma ex_resolve_overdue:
  "put_status \<lparr>userId = ''a1'', actorRole = ''admin''\<rparr> (Some ''i1'')
      \<lparr>bodyStatus = ''resolved'', bodyComment = None, bodyEstimatedResolution = None\<rparr> 90000000
      [ex_issue]
    = (Inr (ex_issue\<lparr>status := ''resolved'', resolvedAt := Some 90000000, updatedAt := 90000000\<rparr>),
       [ex_issue\<lparr>status := ''resolved'', resolvedAt := Some 90000000, updatedAt := 90000000\<rparr>])"
  by (simp add: put_status_def ex_found save_def Let_def)

text \<open>
  C2: a status change to resolved sets the resolved timestamp to the time of the request,
  but it does not touch the stored overdue flag. For the example issue, in progress and
  flagged overdue, resolved at 90000000 ms (after its deadline): the stored document has
  \<^verbatim>\<open>resolvedAt\<close> 90000000 and is still flagged overdue, where \<^verbatim>\<open>checkIfOverdue\<close>,
  which the upvote routes apply before they save, gives false for a resolved issue.
\<close>

theorem resolve_keeps_stale_overdue_flag:
  "put_status \<lparr>userId = ''a1'', actorRole = ''admin''\<rparr> (Some ''i1'')
      \<lparr>bodyStatus = ''resolved'', bodyComment = None, bodyEstimatedResolution = None\<rparr> 90000000
      [ex_issue]
    = (Inr (ex_issue\<lparr>status := ''resolved'', resolvedAt := Some 90000000, updatedAt := 90000000\<rparr>),
       [ex_issue\<lparr>status := ''resolved'', resolvedAt := Some 90000000, updatedAt := 90000000\<rparr>]) \<and>
   resolvedAt (ex_issue\<lparr>status := ''resolved'', resolvedAt := Some 90000000, updatedAt := 90000000\<rparr>)
     = Some 90000000 \<and>
   isOverdue (ex_issue\<lparr>status := ''resolved'', resolvedAt := Some 90000000, updatedAt := 90000000\<rparr>)
     = True \<and>
   checkIfOverdue 90000000 (targetResolutionTime ex_issue) ''resolved'' = False"
  by (simp add: ex_resolve_overdue) (simp add: ex_issue_def checkIfOverdue_def)

section \<open>Properties of the registration\<close>

lemma post_register_created:
  assumes "post_register hash newId body users = (Inr u, users')"
  shows "u = \<lparr>uid = newId, name = regName body, email = regEmail body,
              phone = regPhone body, password = hash (regPassword body),
              role = (if regName body = ''wolf moni'' then ''admin'' else ''citizen''),
              isActive = True, department = None,
              userLatitude = None, userLongitude = None\<rparr> \<and> users' = users @ [u]"
  using assms
  by (auto simp: post_register_def Let_def split: option.splits if_splits)

lemma post_register_ignores_role:
  "post_register hash newId (body\<lparr>regRole := r\<rparr>) users = post_register hash newId body users"
  by (simp add: post_register_def Let_def validUser_def split: option.splits)

text \<open>
  C10: when a registration creates a user, the stored role is admin if the name of the
  request is exactly "wolf moni" and citizen otherwise, so it is admin if and only if
  the name is that one; the created user is appended to the collection, and the same
  user is created whatever role the request supplies.
\<close>

theorem register_role_from_name_only:
  assumes "post_register hash newId body users = (Inr u, users')"
  shows "role u = (if regName body = ''wolf moni'' then ''admin'' else ''citizen'') \<and>
         (role u = ''admin'') = (regName body = ''wolf moni'') \<and>
         users' = users @ [u] \<and>
         (\<forall>r. post_register hash newId (body\<lparr>regRole := r\<rparr>) users = (Inr u, users'))"
proof -
  from post_register_created [OF assms]
  have "role u = (if regName body = ''wolf moni'' then ''admin'' else ''citizen'')"
    and "users' = users @ [u]"
    by simp_all
  then show ?thesis
    using assms by (simp add: post_register_ignores_role)
qed

lemma ex_register:
  "post_register (\<lambda>p. ''#'' @ p) ''u7''
     \<lparr>regName = ''Jane'', regEmail = ''jane@demo.com'', regPhone = ''555'',
      regPassword = ''pw'', regRole = Some ''admin''\<rparr> []
   = (Inr \<lparr>uid = ''u7'', name = ''Jane'', email = ''jane@demo.com'', phone = ''555'',
           password = ''#pw'', role = ''citizen'', isActive = True, department = None,
           userLatitude = None, userLongitude = None\<rparr>,
      [\<lparr>uid = ''u7'', name = ''Jane'', email = ''jane@demo.com'', phone = ''555'',
           password = ''#pw'', role = ''citizen'', isActive = True, department = None,
           userLatitude = None, userLongitude = None\<rparr>])"
  by (simp add: post_register_def Let_def validUser_def)

lemma ex_register_wolf:
  "post_register (\<lambda>p. ''#'' @ p) ''u8''
     \<lparr>regName = ''wolf moni'', regEmail = ''w@demo.com'', regPhone = ''555'',
      regPassword = ''pw'', regRole = None\<rparr> []
   = (Inr \<lparr>uid = ''u8'', name = ''wolf moni'', email = ''w@demo.com'', phone = ''555'',
           password = ''#pw'', role = ''admin'', isActive = True, department = None,
           userLatitude = None, userLongitude = None\<rparr>,
      [\<lparr>uid = ''u8'', name = ''wolf moni'', email = ''w@demo.com'', phone = ''555'',
           password = ''#pw'', role = ''admin'', isActive = True, department = None,
           userLatitude = None, userLongitude = None\<rparr>])"
  by (simp add: post_register_def Let_def validUser_def)

theorem register_role_from_name_only_witness:
  "post_register (\<lambda>p. ''#'' @ p) ''u7''
     \<lparr>regName = ''Jane'', regEmail = ''jane@demo.com'', regPhone = ''555'',
      regPassword = ''pw'', regRole = Some ''admin''\<rparr> []
   = (Inr \<lparr>uid = ''u7'', name = ''Jane'', email = ''jane@demo.com'', phone = ''555'',
           password = ''#pw'', role = ''citizen'', isActive = True, department = None,
           userLatitude = None, userLongitude = None\<rparr>,
      [\<lparr>uid = ''u7'', name = ''Jane'', email = ''jane@demo.com'', phone = ''555'',
           password = ''#pw'', role = ''citizen'', isActive = True, department = None,
           userLatitude = None, userLongitude = None\<rparr>]) \<and>
   role \<lparr>uid = ''u7'', name = ''Jane'', email = ''jane@demo.com'', phone = ''555'',
           password = ''#pw'', role = ''citizen'', isActive = True, department = None,
           userLatitude = None, userLongitude = None\<rparr>
     = (if regName \<lparr>regName = ''Jane'', regEmail = ''jane@demo.com'', regPhone = ''555'',
          regPassword = ''pw'', regRole = Some ''admin''\<rparr> = ''wolf moni''
        then ''admin'' else ''citizen'') \<and>
   post_register (\<lambda>p. ''#'' @ p) ''u8''
     \<lparr>regName = ''wolf moni'', regEmail = ''w@demo.com'', regPhone = ''555'',
      regPassword = ''pw'', regRole = None\<rparr> []
   = (Inr \<lparr>uid = ''u8'', name = ''wolf moni'', email = ''w@demo.com'', phone = ''555'',
           password = ''#pw'', role = ''admin'', isActive = True, department = None,
           userLatitude = None, userLongitude = None\<rparr>,
      [\<lparr>uid = ''u8'', name = ''wolf moni'', email = ''w@demo.com'', phone = ''555'',
           password = ''#pw'', role = ''admin'', isActive = True, department = None,
           userLatitude = None, userLongitude = None\<rparr>])"
proof -
  from register_role_from_name_only [OF ex_register]
  have "role \<lparr>uid = ''u7'', name = ''Jane'', email = ''jane@demo.com'', phone = ''555'',
           password = ''#pw'', role = ''citizen'', isActive = True, department = None,
           userLatitude = None, userLongitude = None\<rparr>
     = (if regName \<lparr>regName = ''Jane'', regEmail = ''jane@demo.com'', regPhone = ''555'',
          regPassword = ''pw'', regRole = Some ''admin''\<rparr> = ''wolf moni''
        then ''admin'' else ''citizen'')"
    by (rule conjunct1)
  with ex_register ex_register_wolf show ?thesis
    by (intro conjI)
qed

section \<open>Properties of the nearest authority\<close>

lemma nearestLoop_step:
  "nearestLoop err lat lon (auth # rest) (nearest, best) =
     (case distTo err lat lon auth of
        None \<Rightarrow> nearestLoop err lat lon rest (nearest, best)
      | Some d \<Rightarrow> if jsLess (Num d) best then nearestLoop err lat lon rest (Some auth, Num d)
                  else nearestLoop err lat lon rest (nearest, best))"
proof (cases "coordsOf auth")
  case None
  then show ?thesis by (simp add: distTo_def)
next
  case (Some c)
  obtain la lo where c: "c = (la, lo)" by (cases c)
  show ?thesis
    by (cases "haversineDistance err lat lon la lo") (simp_all add: distTo_def Some c Let_def)
qed

lemma not_jsLess_Num: "\<not> jsLess (Num d) best \<Longrightarrow> best = NaN \<or> (\<exists>e. best = Num e \<and> e \<le> d)"
  by (cases best) auto

lemma nearestLoop_spec:
  assumes "(nearest = None \<and> best = Infinity) \<or>
           (\<exists>a d. nearest = Some a \<and> best = Num d \<and> distTo err lat lon a = Some d)"
    and "nearestLoop err lat lon xs (nearest, best) = (n', b')"
  shows "((n' = None) = (nearest = None \<and> (\<forall>x\<in>set xs. distTo err lat lon x = None))) \<and>
         (\<forall>a'. n' = Some a' \<longrightarrow> (nearest = Some a' \<or> a' \<in> set xs) \<and>
           (\<exists>d'. distTo err lat lon a' = Some d' \<and> (\<forall>d. best = Num d \<longrightarrow> d' \<le> d) \<and>
              (\<forall>x\<in>set xs. \<forall>dx. distTo err lat lon x = Some dx \<longrightarrow> d' \<le> dx)))"
  using assms
proof (induction xs arbitrary: nearest best)
  case Nil
  then show ?case by auto
next
  case (Cons x xs)
  show ?case
  proof (cases "distTo err lat lon x")
    case None
    with Cons.prems(2) have r: "nearestLoop err lat lon xs (nearest, best) = (n', b')"
      by (simp add: nearestLoop_step del: nearestLoop.simps(2))
    from Cons.IH [OF Cons.prems(1) r] None show ?thesis by auto
  next
    case (Some d)
    show ?thesis
    proof (cases "jsLess (Num d) best")
      case True
      with Some Cons.prems(2) have r: "nearestLoop err lat lon xs (Some x, Num d) = (n', b')"
        by (simp add: nearestLoop_step del: nearestLoop.simps(2))
      have j: "(Some x = None \<and> Num d = Infinity) \<or>
          (\<exists>a e. Some x = Some a \<and> Num d = Num e \<and> distTo err lat lon a = Some e)"
        using Some by simp
      note ih = Cons.IH [OF j r]
      from ih have n: "n' \<noteq> None" by simp
      have "\<forall>a'. n' = Some a' \<longrightarrow> (nearest = Some a' \<or> a' \<in> set (x # xs)) \<and>
           (\<exists>d'. distTo err lat lon a' = Some d' \<and> (\<forall>e. best = Num e \<longrightarrow> d' \<le> e) \<and>
              (\<forall>y\<in>set (x # xs). \<forall>dx. distTo err lat lon y = Some dx \<longrightarrow> d' \<le> dx))"
      proof (intro allI impI)
        fix a' assume a': "n' = Some a'"
        with ih obtain d' where
          d': "Some x = Some a' \<or> a' \<in> set xs" "distTo err lat lon a' = Some d'" "d' \<le> d"
            "\<forall>y\<in>set xs. \<forall>dx. distTo err lat lon y = Some dx \<longrightarrow> d' \<le> dx"
          by auto
        from True d'(3) have "\<forall>e. best = Num e \<longrightarrow> d' \<le> e"
          by auto
        with d' Some show "(nearest = Some a' \<or> a' \<in> set (x # xs)) \<and>
           (\<exists>d'. distTo err lat lon a' = Some d' \<and> (\<forall>e. best = Num e \<longrightarrow> d' \<le> e) \<and>
              (\<forall>y\<in>set (x # xs). \<forall>dx. distTo err lat lon y = Some dx \<longrightarrow> d' \<le> dx))"
          by auto
      qed
      with n Some show ?thesis by auto
    next
      case False
      with Some Cons.prems(2) have r: "nearestLoop err lat lon xs (nearest, best) = (n', b')"
        by (simp add: nearestLoop_step del: nearestLoop.simps(2))
      from not_jsLess_Num [OF False] Cons.prems(1) obtain e where e: "best = Num e" "e \<le> d"
        by auto
      with Cons.prems(1) have nn: "nearest \<noteq> None" by auto
      note ih = Cons.IH [OF Cons.prems(1) r]
      from ih nn have n: "n' \<noteq> None" by simp
      have "\<forall>a'. n' = Some a' \<longrightarrow> (nearest = Some a' \<or> a' \<in> set (x # xs)) \<and>
           (\<exists>d'. distTo err lat lon a' = Some d' \<and> (\<forall>e. best = Num e \<longrightarrow> d' \<le> e) \<and>
              (\<forall>y\<in>set (x # xs). \<forall>dx. distTo err lat lon y = Some dx \<longrightarrow> d' \<le> dx))"
      proof (intro allI impI)
        fix a' assume a': "n' = Some a'"
        with ih obtain d' where
          d': "nearest = Some a' \<or> a' \<in> set xs" "distTo err lat lon a' = Some d'"
            "\<forall>d. best = Num d \<longrightarrow> d' \<le> d"
            "\<forall>y\<in>set xs. \<forall>dx. distTo err lat lon y = Some dx \<longrightarrow> d' \<le> dx"
          by auto
        from d'(3) e have "d' \<le> d" by auto
        with d' Some show "(nearest = Some a' \<or> a' \<in> set (x # xs)) \<and>
           (\<exists>d'. distTo err lat lon a' = Some d' \<and> (\<forall>e. best = Num e \<longrightarrow> d' \<le> e) \<and>
              (\<forall>y\<in>set (x # xs). \<forall>dx. distTo err lat lon y = Some dx \<longrightarrow> d' \<le> dx))"
          by auto
      qed
      with n nn show ?thesis by auto
    qed
  qed
qed

lemma findAuthorities_dep:
  "dep \<noteq> [] \<Longrightarrow> findAuthorities (Some dep) users =
     filter (\<lambda>u. role u = ''authority'' \<and> isActive u \<and> department u = Some dep) users"
  by (simp add: findAuthorities_def)

lemma findAuthorities_absent:
  "findAuthorities None users = filter (\<lambda>u. role u = ''authority'' \<and> isActive u) users"
  "findAuthorities (Some []) users = filter (\<lambda>u. role u = ''authority'' \<and> isActive u) users"
  by (simp_all add: findAuthorities_def)

text \<open>
  What the loop does for a department (a non-empty name): the candidates that are ranked
  are the active authority accounts of the department that have both coordinates and a
  distance that is a number. The result is \<^verbatim>\<open>null\<close> exactly when there is none of them;
  otherwise it is one of them, at a distance that is at most that of each of them. An
  account whose distance is \<^verbatim>\<open>NaN\<close> is passed over.
\<close>

lemma nearest_authority_among_ranked:
  assumes "dep \<noteq> []"
  shows "((findNearestAuthority err (Some dep) lat lon users = None) =
            (\<forall>u\<in>set users. role u = ''authority'' \<and> isActive u \<and> department u = Some dep \<longrightarrow>
                distTo err lat lon u = None)) \<and>
         (\<forall>a. findNearestAuthority err (Some dep) lat lon users = Some a \<longrightarrow>
            a \<in> set users \<and> role a = ''authority'' \<and> isActive a \<and> department a = Some dep \<and>
            (\<exists>d. distTo err lat lon a = Some d \<and>
               (\<forall>b\<in>set users. role b = ''authority'' \<and> isActive b \<and> department b = Some dep \<longrightarrow>
                  (\<forall>e. distTo err lat lon b = Some e \<longrightarrow> d \<le> e))))"
proof -
  let ?pool = "filter (\<lambda>u. role u = ''authority'' \<and> isActive u \<and> department u = Some dep) users"
  obtain n' b' where r: "nearestLoop err lat lon ?pool (None, Infinity) = (n', b')"
    by (cases "nearestLoop err lat lon ?pool (None, Infinity)") auto
  then have f: "findNearestAuthority err (Some dep) lat lon users = n'"
    using assms by (simp add: findNearestAuthority_def findAuthorities_dep)
  have j: "(None = None \<and> Infinity = Infinity) \<or>
      (\<exists>a d. (None::user option) = Some a \<and> Infinity = Num d \<and> distTo err lat lon a = Some d)"
    by simp
  note sp = nearestLoop_spec [OF j r]
  have p1: "(n' = None) =
            (\<forall>u\<in>set users. role u = ''authority'' \<and> isActive u \<and> department u = Some dep \<longrightarrow>
                distTo err lat lon u = None)"
    using sp by auto
  have p2: "\<forall>a. n' = Some a \<longrightarrow>
            a \<in> set users \<and> role a = ''authority'' \<and> isActive a \<and> department a = Some dep \<and>
            (\<exists>d. distTo err lat lon a = Some d \<and>
               (\<forall>b\<in>set users. role b = ''authority'' \<and> isActive b \<and> department b = Some dep \<longrightarrow>
                  (\<forall>e. distTo err lat lon b = Some e \<longrightarrow> d \<le> e)))"
  proof (intro allI impI)
    fix a assume a: "n' = Some a"
    with sp obtain d' where
      d': "a \<in> set ?pool" "distTo err lat lon a = Some d'"
        "\<forall>x\<in>set ?pool. \<forall>dx. distTo err lat lon x = Some dx \<longrightarrow> d' \<le> dx"
      by auto
    have "\<forall>b\<in>set users. role b = ''authority'' \<and> isActive b \<and> department b = Some dep \<longrightarrow>
                  (\<forall>e. distTo err lat lon b = Some e \<longrightarrow> d' \<le> e)"
    proof (intro ballI impI allI)
      fix b e
      assume b: "b \<in> set users" "role b = ''authority'' \<and> isActive b \<and> department b = Some dep"
        and be: "distTo err lat lon b = Some e"
      from b have "b \<in> set ?pool" by simp
      with be d'(3) show "d' \<le> e" by blast
    qed
    with d'(1,2) show "a \<in> set users \<and> role a = ''authority'' \<and> isActive a \<and> department a = Some dep \<and>
            (\<exists>d. distTo err lat lon a = Some d \<and>
               (\<forall>b\<in>set users. role b = ''authority'' \<and> isActive b \<and> department b = Some dep \<longrightarrow>
                  (\<forall>e. distTo err lat lon b = Some e \<longrightarrow> d \<le> e)))"
      by auto
  qed
  from p1 p2 show ?thesis unfolding f by blast
qed

text \<open>
  Without a department (the argument absent or empty) the query has no department
  filter: every active authority with coordinates is a candidate.
\<close>

lemma haversineA_same: "haversineA lat lon lat lon = 0"
  by (simp add: haversineA_def toRad_def Let_def)

lemma haversine_same: "haversineDistance (\<lambda>_ _ _ _. 0) lat lon lat lon = Num 0"
  by (simp add: haversineDistance_def haversineA_same atan2_def Let_def)

lemma nearest_authority_without_department:
  "findNearestAuthority (\<lambda>_ _ _ _. 0) None 40.7484 (- 73.9857) [ex_carla] = Some ex_carla"
  "findNearestAuthority (\<lambda>_ _ _ _. 0) (Some []) 40.7484 (- 73.9857) [ex_carla] = Some ex_carla"
  by (simp_all add: findNearestAuthority_def findAuthorities_def ex_carla_def coordsOf_def
      haversine_same Let_def)



section \<open>Properties of the duplicate detection\<close>

lemma greatCircleKm_same: "greatCircleKm lat lon lat lon = 0"
  by (simp add: greatCircleKm_def toRad_def atan2_def Let_def)

lemma notFarther_refl: "notFarther c c"
  by (simp add: notFarther_def)

lemma notFarther_trans: "notFarther a b \<Longrightarrow> notFarther b c \<Longrightarrow> notFarther a c"
  by (auto simp: notFarther_def)

lemma closer_notFarther: "closerDuplicate c b \<Longrightarrow> notFarther c b"
  by (auto simp: notFarther_def closerDuplicate_def)

lemma not_closer_notFarther: "\<not> closerDuplicate c b \<Longrightarrow> notFarther b c"
  by (auto simp: notFarther_def closerDuplicate_def)

lemma nearestDuplicate_spec:
  "((nearestDuplicate cs best = None) = (best = None \<and> cs = [])) \<and>
   (\<forall>c'. nearestDuplicate cs best = Some c' \<longrightarrow>
      (best = Some c' \<or> c' \<in> set cs) \<and>
      (\<forall>b. best = Some b \<longrightarrow> notFarther c' b) \<and>
      (\<forall>c\<in>set cs. notFarther c' c))"
proof (induction cs arbitrary: best)
  case Nil
  then show ?case by (simp add: notFarther_refl)
next
  case (Cons c0 cs)
  show ?case
  proof (cases best)
    case None
    from Cons.IH [of "Some c0"] None show ?thesis by auto
  next
    case (Some b)
    show ?thesis
    proof (cases "closerDuplicate c0 b")
      case True
      then have e: "nearestDuplicate (c0 # cs) best = nearestDuplicate cs (Some c0)"
        using Some by simp
      from Cons.IH [of "Some c0"] closer_notFarther [OF True] Some show ?thesis
        unfolding e by (auto intro: notFarther_trans)
    next
      case False
      then have e: "nearestDuplicate (c0 # cs) best = nearestDuplicate cs (Some b)"
        using Some by simp
      from Cons.IH [of "Some b"] not_closer_notFarther [OF False] Some show ?thesis
        unfolding e by (auto intro: notFarther_trans)
    qed
  qed
qed

lemma nearestDuplicate_None: "(nearestDuplicate cs None = None) = (cs = [])"
  using nearestDuplicate_spec [of cs None] by simp

lemma nearestDuplicate_Some:
  assumes "nearestDuplicate cs None = Some c'"
  shows "c' \<in> set cs" and "\<forall>c\<in>set cs. notFarther c' c"
  using nearestDuplicate_spec [of cs None] assms by simp_all

lemma nearby_member:
  "(c \<in> set (filter (\<lambda>c. snd c \<le> th) (map (\<lambda>x. (x, distanceMeters lat lon x))
        (filter (\<lambda>x. \<not> isTerminal (status x) \<and> category x = cat) issues)))) =
      (fst c \<in> set issues \<and> \<not> isTerminal (status (fst c)) \<and> category (fst c) = cat \<and>
       snd c = distanceMeters lat lon (fst c) \<and> snd c \<le> th)"
  by (cases c) auto

text \<open>
  C4: \<^verbatim>\<open>findDuplicate\<close> answers "no duplicate" exactly when no existing issue that is
  not terminal and has the category asked for lies within the threshold. Otherwise it
  returns such an issue with its distance: the issue is in the collection, not terminal,
  of exactly that category (so an issue of another category is never returned, at any
  distance), within the threshold, at most as far as every other such issue, and at
  least as recently created as every such issue at the same distance.
\<close>

theorem duplicate_is_nearest_of_same_category:
  "((findDuplicate issues cat lat lon th = None) =
      (\<forall>y\<in>set issues. \<not> (\<not> isTerminal (status y) \<and> category y = cat \<and> distanceMeters lat lon y \<le> th))) \<and>
   (\<forall>x d. findDuplicate issues cat lat lon th = Some (x, d) \<longrightarrow>
      x \<in> set issues \<and> \<not> isTerminal (status x) \<and> category x = cat \<and>
      d = distanceMeters lat lon x \<and> d \<le> th \<and>
      (\<forall>y\<in>set issues. \<not> isTerminal (status y) \<and> category y = cat \<and> distanceMeters lat lon y \<le> th \<longrightarrow>
         d \<le> distanceMeters lat lon y \<and>
         (distanceMeters lat lon y = d \<longrightarrow> createdAt y \<le> createdAt x)))"
proof (intro conjI allI impI)
  let ?nearby = "filter (\<lambda>c. snd c \<le> th) (map (\<lambda>x. (x, distanceMeters lat lon x))
        (filter (\<lambda>x. \<not> isTerminal (status x) \<and> category x = cat) issues))"
  have f: "findDuplicate issues cat lat lon th = nearestDuplicate ?nearby None"
    by (simp add: findDuplicate_def Let_def)
  have e: "(?nearby = []) =
    (\<forall>y\<in>set issues. \<not> (\<not> isTerminal (status y) \<and> category y = cat \<and> distanceMeters lat lon y \<le> th))"
  proof
    assume n: "?nearby = []"
    show "\<forall>y\<in>set issues. \<not> (\<not> isTerminal (status y) \<and> category y = cat \<and> distanceMeters lat lon y \<le> th)"
    proof (intro ballI notI)
      fix y assume "y \<in> set issues"
        "\<not> isTerminal (status y) \<and> category y = cat \<and> distanceMeters lat lon y \<le> th"
      then have "(y, distanceMeters lat lon y) \<in> set ?nearby"
        unfolding nearby_member by simp
      with n show False by simp
    qed
  next
    assume a: "\<forall>y\<in>set issues. \<not> (\<not> isTerminal (status y) \<and> category y = cat \<and> distanceMeters lat lon y \<le> th)"
    show "?nearby = []"
    proof (rule ccontr)
      assume "?nearby \<noteq> []"
      from hd_in_set [OF this] obtain c where "c \<in> set ?nearby" by blast
      then have "fst c \<in> set issues \<and> \<not> isTerminal (status (fst c)) \<and> category (fst c) = cat \<and>
         distanceMeters lat lon (fst c) \<le> th"
        unfolding nearby_member by simp
      with a show False by blast
    qed
  qed
  show "(findDuplicate issues cat lat lon th = None) =
      (\<forall>y\<in>set issues. \<not> (\<not> isTerminal (status y) \<and> category y = cat \<and> distanceMeters lat lon y \<le> th))"
    unfolding f nearestDuplicate_None by (rule e)
  fix x d assume "findDuplicate issues cat lat lon th = Some (x, d)"
  then have r: "nearestDuplicate ?nearby None = Some (x, d)"
    unfolding f .
  from nearestDuplicate_Some(1) [OF r]
  have xi: "x \<in> set issues \<and> \<not> isTerminal (status x) \<and> category x = cat \<and>
      d = distanceMeters lat lon x \<and> d \<le> th"
    unfolding nearby_member by simp
  from xi show "x \<in> set issues" "\<not> isTerminal (status x)" "category x = cat"
    "d = distanceMeters lat lon x" "d \<le> th"
    by simp_all
  show "\<forall>y\<in>set issues. \<not> isTerminal (status y) \<and> category y = cat \<and> distanceMeters lat lon y \<le> th \<longrightarrow>
         d \<le> distanceMeters lat lon y \<and>
         (distanceMeters lat lon y = d \<longrightarrow> createdAt y \<le> createdAt x)"
  proof (intro ballI impI)
    fix y assume y: "y \<in> set issues"
      "\<not> isTerminal (status y) \<and> category y = cat \<and> distanceMeters lat lon y \<le> th"
    then have "(y, distanceMeters lat lon y) \<in> set ?nearby"
      unfolding nearby_member by simp
    with nearestDuplicate_Some(2) [OF r]
    have "notFarther (x, d) (y, distanceMeters lat lon y)" by blast
    then show "d \<le> distanceMeters lat lon y \<and>
         (distanceMeters lat lon y = d \<longrightarrow> createdAt y \<le> createdAt x)"
      by (simp add: notFarther_def)
  qed
qed


lemma ex_duplicate_pothole:
  "findDuplicate [ex_issue, ex_issue\<lparr>iid := ''i3'', createdAt := 100\<rparr>, ex_resolved] ''pothole'' 0 0 300
     = Some (ex_issue\<lparr>iid := ''i3'', createdAt := 100\<rparr>, 0)"
  by (simp add: findDuplicate_def Let_def isTerminal_def distanceMeters_def greatCircleKm_same
      closerDuplicate_def ex_issue_def ex_resolved_def)

lemma ex_duplicate_trash:
  "findDuplicate [ex_issue, ex_issue\<lparr>iid := ''i3'', createdAt := 100\<rparr>, ex_resolved] ''trash'' 0 0 300
     = None"
  by (simp add: findDuplicate_def Let_def isTerminal_def ex_issue_def ex_resolved_def)

theorem duplicate_is_nearest_of_same_category_witness:
  "findDuplicate [ex_issue, ex_issue\<lparr>iid := ''i3'', createdAt := 100\<rparr>, ex_resolved] ''pothole'' 0 0 300
     = Some (ex_issue\<lparr>iid := ''i3'', createdAt := 100\<rparr>, 0) \<and>
   category (ex_issue\<lparr>iid := ''i3'', createdAt := 100\<rparr>) = ''pothole'' \<and>
   \<not> isTerminal (status (ex_issue\<lparr>iid := ''i3'', createdAt := 100\<rparr>)) \<and>
   0 = distanceMeters 0 0 (ex_issue\<lparr>iid := ''i3'', createdAt := 100\<rparr>) \<and>
   (0::real) \<le> 300 \<and>
   createdAt ex_issue \<le> createdAt (ex_issue\<lparr>iid := ''i3'', createdAt := 100\<rparr>) \<and>
   findDuplicate [ex_issue, ex_issue\<lparr>iid := ''i3'', createdAt := 100\<rparr>, ex_resolved] ''trash'' 0 0 300
     = None"
proof -
  note t = duplicate_is_nearest_of_same_category
    [of "[ex_issue, ex_issue\<lparr>iid := ''i3'', createdAt := 100\<rparr>, ex_resolved]" "''pothole''" 0 0 300]
  from t ex_duplicate_pothole
  have a: "category (ex_issue\<lparr>iid := ''i3'', createdAt := 100\<rparr>) = ''pothole'' \<and>
     \<not> isTerminal (status (ex_issue\<lparr>iid := ''i3'', createdAt := 100\<rparr>)) \<and>
     0 = distanceMeters 0 0 (ex_issue\<lparr>iid := ''i3'', createdAt := 100\<rparr>) \<and>
     (0::real) \<le> 300"
    by blast
  have b: "createdAt ex_issue \<le> createdAt (ex_issue\<lparr>iid := ''i3'', createdAt := 100\<rparr>)"
    by (simp add: ex_issue_def)
  from a b ex_duplicate_pothole ex_duplicate_trash show ?thesis
    by blast
qed

end
